theory Spec2Isabelle
  imports Complex_Main
begin

section \<open>JavaScript numbers\<close>

text \<open>
  The constellation engine of \<^verbatim>\<open>src/App.tsx\<close> computes with JavaScript numbers. They are
  modelled as exact reals together with the three special values of IEEE 754 arithmetic:
  the two infinities and NaN. The special values follow the IEEE rules (\<open>0/0\<close> is NaN,
  every operation on NaN is NaN, a comparison with NaN is false). Rounding, overflow,
  underflow and the sign of zero are not modelled: a finite result is the exact real.
  Where a statement depends on the size of a product, it is either about the value as
  computed or carries a bound on the operands that keeps the product in range.
\<close>

datatype number = Fin real | PInf | NInf | NaN

fun num_neg :: "number \<Rightarrow> number" where
  "num_neg (Fin a) = Fin (- a)"
| "num_neg PInf = NInf"
| "num_neg NInf = PInf"
| "num_neg NaN = NaN"

fun num_add :: "number \<Rightarrow> number \<Rightarrow> number" where
  "num_add (Fin a) (Fin b) = Fin (a + b)"
| "num_add (Fin a) PInf = PInf"
| "num_add (Fin a) NInf = NInf"
| "num_add PInf (Fin b) = PInf"
| "num_add PInf PInf = PInf"
| "num_add PInf NInf = NaN"
| "num_add NInf (Fin b) = NInf"
| "num_add NInf NInf = NInf"
| "num_add NInf PInf = NaN"
| "num_add NaN b = NaN"
| "num_add a NaN = NaN"

definition num_sub :: "number \<Rightarrow> number \<Rightarrow> number" where
  "num_sub a b = num_add a (num_neg b)"

fun num_mul :: "number \<Rightarrow> number \<Rightarrow> number" where
  "num_mul (Fin a) (Fin b) = Fin (a * b)"
| "num_mul (Fin a) PInf = (if a = 0 then NaN else if 0 < a then PInf else NInf)"
| "num_mul (Fin a) NInf = (if a = 0 then NaN else if 0 < a then NInf else PInf)"
| "num_mul PInf (Fin b) = (if b = 0 then NaN else if 0 < b then PInf else NInf)"
| "num_mul NInf (Fin b) = (if b = 0 then NaN else if 0 < b then NInf else PInf)"
| "num_mul PInf PInf = PInf"
| "num_mul PInf NInf = NInf"
| "num_mul NInf PInf = NInf"
| "num_mul NInf NInf = PInf"
| "num_mul NaN b = NaN"
| "num_mul a NaN = NaN"

text \<open>Division is where the model differs from HOL's total \<open>/\<close>: a zero divisor gives
  NaN for a zero dividend and an infinity otherwise.\<close>

fun num_div :: "number \<Rightarrow> number \<Rightarrow> number" where
  "num_div (Fin a) (Fin b) =
     (if b \<noteq> 0 then Fin (a / b)
      else if a = 0 then NaN
      else if 0 < a then PInf else NInf)"
| "num_div (Fin a) PInf = Fin 0"
| "num_div (Fin a) NInf = Fin 0"
| "num_div PInf (Fin b) = (if 0 \<le> b then PInf else NInf)"
| "num_div NInf (Fin b) = (if 0 \<le> b then NInf else PInf)"
| "num_div PInf PInf = NaN"
| "num_div PInf NInf = NaN"
| "num_div NInf PInf = NaN"
| "num_div NInf NInf = NaN"
| "num_div NaN b = NaN"
| "num_div a NaN = NaN"

text \<open>\<^verbatim>\<open>Math.sqrt\<close>.\<close>

fun num_sqrt :: "number \<Rightarrow> number" where
  "num_sqrt (Fin a) = (if a < 0 then NaN else Fin (sqrt a))"
| "num_sqrt PInf = PInf"
| "num_sqrt NInf = NaN"
| "num_sqrt NaN = NaN"

text \<open>The comparison \<^verbatim>\<open><\<close>.\<close>

fun num_lt :: "number \<Rightarrow> number \<Rightarrow> bool" where
  "num_lt (Fin a) (Fin b) = (a < b)"
| "num_lt (Fin a) PInf = True"
| "num_lt NInf (Fin b) = True"
| "num_lt NInf PInf = True"
| "num_lt a b = False"

text \<open>Strict equality \<^verbatim>\<open>===\<close> on numbers: NaN is not equal to itself.\<close>

fun num_seq :: "number \<Rightarrow> number \<Rightarrow> bool" where
  "num_seq NaN b = False"
| "num_seq a NaN = False"
| "num_seq a b = (a = b)"

text \<open>Truthiness, as \<^verbatim>\<open>||\<close> tests it: zero and NaN are falsy.\<close>

fun num_truthy :: "number \<Rightarrow> bool" where
  "num_truthy (Fin a) = (a \<noteq> 0)"
| "num_truthy PInf = True"
| "num_truthy NInf = True"
| "num_truthy NaN = False"

text \<open>\<^verbatim>\<open>Math.min\<close> of two numbers.\<close>

fun num_min :: "number \<Rightarrow> number \<Rightarrow> number" where
  "num_min NaN b = NaN"
| "num_min a NaN = NaN"
| "num_min a b = (if num_lt b a then b else a)"

fun is_fin :: "number \<Rightarrow> bool" where
  "is_fin (Fin a) = True"
| "is_fin a = False"

section \<open>Data model\<close>

text \<open>A held node \<^verbatim>\<open>{ id, type, x, y, vx, vy }\<close>, a snapshot node \<^verbatim>\<open>{ id, type }\<close> as
  \<^verbatim>\<open>refreshGraph\<close> builds it, a link \<^verbatim>\<open>{ source, target }\<close>, the snapshot \<^verbatim>\<open>graphData\<close> and
  the held structure \<^verbatim>\<open>physicsRef.current\<close>.\<close>

record node =
  n_id :: string
  n_type :: string
  n_x :: number
  n_y :: number
  n_vx :: number
  n_vy :: number

record gnode =
  g_id :: string
  g_type :: string

record link =
  l_source :: string
  l_target :: string

record graph_data =
  gd_nodes :: "gnode list"
  gd_links :: "link list"

record physics =
  ph_nodes :: "node list"
  ph_links :: "link list"

record planet =
  p_x :: number
  p_y :: number
  p_radius :: number

section \<open>Reconciliation (the first effect of \<^verbatim>\<open>ConstellationGraph\<close>)\<close>

text \<open>
  \<^verbatim>\<open>graphData.nodes.map(n => ...)\<close>. The successive results of \<^verbatim>\<open>Math.random()\<close> are the
  sequence \<open>rnd\<close>; \<open>k\<close> counts the draws made so far. A node that is not found draws
  twice, first for \<open>x\<close>, then for \<open>y\<close>. \<^verbatim>\<open>find\<close> returns the first held node with the id.
\<close>

fun newNodes ::
  "(nat \<Rightarrow> real) \<Rightarrow> nat \<Rightarrow> number \<Rightarrow> number \<Rightarrow> node list \<Rightarrow> gnode list \<Rightarrow> node list" where
  "newNodes rnd k width height held [] = []"
| "newNodes rnd k width height held (n # rest) =
     (case find (\<lambda>old. n_id old = g_id n) held of
        Some existing \<Rightarrow>
          \<lparr>n_id = g_id n, n_type = g_type n,
           n_x = n_x existing, n_y = n_y existing,
           n_vx = n_vx existing, n_vy = n_vy existing\<rparr>
          # newNodes rnd k width height held rest
      | None \<Rightarrow>
          \<lparr>n_id = g_id n, n_type = g_type n,
           n_x = num_mul (Fin (rnd k)) width,
           n_y = num_mul (num_mul (Fin (rnd (k + 1))) height) (Fin 0.5),
           n_vx = Fin 0, n_vy = Fin 0\<rparr>
          # newNodes rnd (k + 2) width height held rest)"

text \<open>\<open>innerWidth\<close> and \<open>innerHeight\<close> are \<^verbatim>\<open>window.innerWidth\<close> and
  \<^verbatim>\<open>window.innerHeight\<close>, non-negative integers.\<close>

definition reconcile :: "(nat \<Rightarrow> real) \<Rightarrow> nat \<Rightarrow> nat \<Rightarrow> physics \<Rightarrow> graph_data \<Rightarrow> physics" where
  "reconcile rnd innerWidth innerHeight current graphData =
     \<lparr>ph_nodes = newNodes rnd 0 (Fin (real innerWidth)) (Fin (real innerHeight))
                   (ph_nodes current) (gd_nodes graphData),
      ph_links = gd_links graphData\<rparr>"

section \<open>Obstacle model\<close>

definition getPlanetConfig :: "number \<Rightarrow> number \<Rightarrow> planet" where
  "getPlanetConfig w h =
     (let isMobile = num_lt w (Fin 768) in
      \<lparr>p_x = (if isMobile then num_mul (num_neg w) (Fin 0.2) else num_mul (num_neg w) (Fin 0.1)),
       p_y = (if isMobile then num_mul h (Fin 0.8) else num_mul h (Fin 1.1)),
       p_radius = (if isMobile then num_mul h (Fin 0.6) else num_mul (num_min w h) (Fin 0.8))\<rparr>)"

section \<open>Physics integrator (the first half of \<^verbatim>\<open>renderLoop\<close>)\<close>

definition REPULSION :: number where "REPULSION = Fin 2000"
definition SPRING_LENGTH :: number where "SPRING_LENGTH = Fin 120"
definition SPRING_K :: number where "SPRING_K = Fin 0.02"
definition DAMPING :: number where "DAMPING = Fin 0.85"
definition CENTER_GRAVITY :: number where "CENTER_GRAVITY = Fin 0.0003"

subsection \<open>1. Repulsion\<close>

text \<open>The divisor of the force: \<^verbatim>\<open>distSq = dx*dx + dy*dy; if (distSq === 0) distSq = 1\<close>.\<close>

definition repulsion_distSq :: "number \<Rightarrow> number \<Rightarrow> number" where
  "repulsion_distSq dx dy =
     (let distSq = num_add (num_mul dx dx) (num_mul dy dy) in
      if num_seq distSq (Fin 0) then Fin 1 else distSq)"

text \<open>\<^verbatim>\<open>force = REPULSION / distSq\<close>.\<close>

definition repulsion_force :: "number \<Rightarrow> number \<Rightarrow> number" where
  "repulsion_force dx dy = num_div REPULSION (repulsion_distSq dx dy)"

text \<open>The pair \<open>(fx, fy)\<close>.\<close>

definition repulsion_delta :: "number \<Rightarrow> number \<Rightarrow> number \<times> number" where
  "repulsion_delta dx dy =
     (let dist = num_sqrt (repulsion_distSq dx dy);
          force = repulsion_force dx dy
      in (num_mul (num_div dx dist) force, num_mul (num_div dy dist) force))"

text \<open>The body of the inner loop, for the nodes at indices \<open>i\<close> and \<open>j\<close>. The array
  holds distinct objects, so the two updates are two list updates, the second reading the
  list the first one left.\<close>

definition repulse_pair :: "nat \<Rightarrow> nat \<Rightarrow> node list \<Rightarrow> node list" where
  "repulse_pair i j ns =
     (let dx = num_sub (n_x (ns ! i)) (n_x (ns ! j));
          dy = num_sub (n_y (ns ! i)) (n_y (ns ! j));
          fx = fst (repulsion_delta dx dy);
          fy = snd (repulsion_delta dx dy);
          ns1 = ns[i := (ns ! i)\<lparr>n_vx := num_add (n_vx (ns ! i)) fx,
                                 n_vy := num_add (n_vy (ns ! i)) fy\<rparr>]
      in ns1[j := (ns1 ! j)\<lparr>n_vx := num_sub (n_vx (ns1 ! j)) fx,
                             n_vy := num_sub (n_vy (ns1 ! j)) fy\<rparr>])"

text \<open>\<^verbatim>\<open>for (i = 0; i < nodes.length; i++) for (j = i + 1; j < nodes.length; j++)\<close>.\<close>

definition repulsion :: "node list \<Rightarrow> node list" where
  "repulsion ns =
     fold (\<lambda>i acc. fold (\<lambda>j. repulse_pair i j) [Suc i ..< length acc] acc) [0 ..< length ns] ns"

subsection \<open>2. Attraction along links\<close>

text \<open>\<^verbatim>\<open>nodes.find(n => n.id === k)\<close> returns a reference to the first node with the id; the
  reference is its index.\<close>

fun find_idx :: "string \<Rightarrow> node list \<Rightarrow> nat option" where
  "find_idx k [] = None"
| "find_idx k (n # ns) = (if n_id n = k then Some 0 else map_option Suc (find_idx k ns))"

text \<open>The pair \<open>(fx, fy)\<close> of a link: \<^verbatim>\<open>dist = Math.sqrt(dx*dx + dy*dy) || 1\<close>.\<close>

definition spring_delta :: "number \<Rightarrow> number \<Rightarrow> number \<times> number" where
  "spring_delta dx dy =
     (let d = num_sqrt (num_add (num_mul dx dx) (num_mul dy dy));
          dist = (if num_truthy d then d else Fin 1);
          force = num_mul (num_sub dist SPRING_LENGTH) SPRING_K
      in (num_mul (num_div dx dist) force, num_mul (num_div dy dist) force))"

text \<open>The callback of \<^verbatim>\<open>links.forEach\<close>. Source and target may be the same object (a link
  from a node to itself): the second update reads what the first one wrote.\<close>

definition spring_link :: "link \<Rightarrow> node list \<Rightarrow> node list" where
  "spring_link l ns =
     (case find_idx (l_source l) ns of
        None \<Rightarrow> ns
      | Some s \<Rightarrow>
          (case find_idx (l_target l) ns of
             None \<Rightarrow> ns
           | Some t \<Rightarrow>
               (let dx = num_sub (n_x (ns ! t)) (n_x (ns ! s));
                    dy = num_sub (n_y (ns ! t)) (n_y (ns ! s));
                    fx = fst (spring_delta dx dy);
                    fy = snd (spring_delta dx dy);
                    ns1 = ns[s := (ns ! s)\<lparr>n_vx := num_add (n_vx (ns ! s)) fx,
                                           n_vy := num_add (n_vy (ns ! s)) fy\<rparr>]
                in ns1[t := (ns1 ! t)\<lparr>n_vx := num_sub (n_vx (ns1 ! t)) fx,
                                       n_vy := num_sub (n_vy (ns1 ! t)) fy\<rparr>])))"

definition springs :: "link list \<Rightarrow> node list \<Rightarrow> node list" where
  "springs ls ns = fold spring_link ls ns"

subsection \<open>3. Gravity, planet collision, damping and integration\<close>

text \<open>\<^verbatim>\<open>distPlanet\<close>, the distance of a node from the centre of the planet.\<close>

definition distPlanet :: "planet \<Rightarrow> node \<Rightarrow> number" where
  "distPlanet pl n =
     (let dxPlanet = num_sub (n_x n) (p_x pl);
          dyPlanet = num_sub (n_y n) (p_y pl)
      in num_sqrt (num_add (num_mul dxPlanet dxPlanet) (num_mul dyPlanet dyPlanet)))"

definition gravity_planet :: "number \<Rightarrow> number \<Rightarrow> planet \<Rightarrow> node \<Rightarrow> node" where
  "gravity_planet width height pl n =
     (let vx1 = num_add (n_vx n)
                  (num_mul (num_sub (num_mul width (Fin 0.7)) (n_x n)) CENTER_GRAVITY);
          vy1 = num_add (n_vy n)
                  (num_mul (num_sub (num_mul height (Fin 0.3)) (n_y n)) CENTER_GRAVITY);
          dxPlanet = num_sub (n_x n) (p_x pl);
          dyPlanet = num_sub (n_y n) (p_y pl);
          buffer = Fin 20;
          hit = num_lt (distPlanet pl n) (num_add (p_radius pl) buffer);
          pushForce = num_mul (num_sub (num_add (p_radius pl) buffer) (distPlanet pl n)) (Fin 0.1);
          vx2 = (if hit then num_add vx1 (num_mul (num_div dxPlanet (distPlanet pl n)) pushForce)
                 else vx1);
          vy2 = (if hit then num_add vy1 (num_mul (num_div dyPlanet (distPlanet pl n)) pushForce)
                 else vy1);
          vx3 = num_mul vx2 DAMPING;
          vy3 = num_mul vy2 DAMPING
      in n\<lparr>n_x := num_add (n_x n) vx3, n_y := num_add (n_y n) vy3, n_vx := vx3, n_vy := vy3\<rparr>)"

text \<open>One physics step. \<open>cw\<close> and \<open>ch\<close> are \<^verbatim>\<open>canvas.width\<close> and \<^verbatim>\<open>canvas.height\<close>,
  unsigned integers.\<close>

definition physics_step :: "nat \<Rightarrow> nat \<Rightarrow> physics \<Rightarrow> physics" where
  "physics_step cw ch p =
     (let width = Fin (real cw);
          height = Fin (real ch);
          pl = getPlanetConfig width height;
          ns1 = repulsion (ph_nodes p);
          ns2 = springs (ph_links p) ns1;
          ns3 = map (gravity_planet width height pl) ns2
      in p\<lparr>ph_nodes := ns3\<rparr>)"

section \<open>Renderer: the edges\<close>

text \<open>What \<^verbatim>\<open>links.forEach\<close> of the drawing half strokes: one line per link whose two ends
  are found, with the stroke style and dash pattern chosen by the type of the target.\<close>

record edge =
  e_from :: "number \<times> number"
  e_to :: "number \<times> number"
  e_strokeStyle :: string
  e_lineDash :: "nat list"

definition draw_edge :: "node list \<Rightarrow> link \<Rightarrow> edge list" where
  "draw_edge ns l =
     (case find_idx (l_source l) ns of
        None \<Rightarrow> []
      | Some s \<Rightarrow>
          (case find_idx (l_target l) ns of
             None \<Rightarrow> []
           | Some t \<Rightarrow>
               [\<lparr>e_from = (n_x (ns ! s), n_y (ns ! s)),
                 e_to = (n_x (ns ! t), n_y (ns ! t)),
                 e_strokeStyle = (if n_type (ns ! t) = ''output''
                                  then ''rgba(192, 192, 192, 0.3)''
                                  else ''rgba(255, 255, 255, 0.4)''),
                 e_lineDash = (if n_type (ns ! t) = ''output'' then [2, 4] else [])\<rparr>]))"

definition draw_edges :: "node list \<Rightarrow> link list \<Rightarrow> edge list" where
  "draw_edges ns ls = concat (map (draw_edge ns) ls)"

section \<open>Example data\<close>

text \<open>The initial value of \<^verbatim>\<open>physicsRef\<close>, and the two snapshots of the end-to-end scenario
  (with the type strings \<^verbatim>\<open>refreshGraph\<close> writes).\<close>

definition initial_physics :: physics where
  "initial_physics = \<lparr>ph_nodes = [], ph_links = []\<rparr>"

definition snapshot_a1 :: graph_data where
  "snapshot_a1 = \<lparr>gd_nodes = [\<lparr>g_id = ''a1'', g_type = ''agent''\<rparr>], gd_links = []\<rparr>"

definition snapshot_a1_f1 :: graph_data where
  "snapshot_a1_f1 =
     \<lparr>gd_nodes = [\<lparr>g_id = ''a1'', g_type = ''agent''\<rparr>, \<lparr>g_id = ''f1'', g_type = ''form''\<rparr>],
      gd_links = [\<lparr>l_source = ''a1'', l_target = ''f1''\<rparr>]\<rparr>"

definition held_a1 :: physics where
  "held_a1 =
     \<lparr>ph_nodes = [\<lparr>n_id = ''a1'', n_type = ''agent'',
                   n_x = Fin 3, n_y = Fin 4, n_vx = Fin 1, n_vy = Fin 2\<rparr>],
      ph_links = []\<rparr>"

text \<open>A sequence of draws of \<^verbatim>\<open>Math.random()\<close>: always one half.\<close>

definition draws_half :: "nat \<Rightarrow> real" where
  "draws_half k = 1 / 2"

text \<open>Two nodes half a pixel apart.\<close>

definition close_pair :: "node list" where
  "close_pair =
     [\<lparr>n_id = ''a1'', n_type = ''agent'', n_x = Fin (1 / 2), n_y = Fin 0, n_vx = Fin 0, n_vy = Fin 0\<rparr>,
      \<lparr>n_id = ''f1'', n_type = ''form'', n_x = Fin 0, n_y = Fin 0, n_vx = Fin 0, n_vy = Fin 0\<rparr>]"

definition link_a1_f1 :: link where
  "link_a1_f1 = \<lparr>l_source = ''a1'', l_target = ''f1''\<rparr>"

definition link_gone :: link where
  "link_gone = \<lparr>l_source = ''a1'', l_target = ''gone''\<rparr>"

text \<open>Two nodes at rest on the centre of the obstacle of a canvas of 1000 by 1000.\<close>

definition centre_pair :: "node list" where
  "centre_pair =
     [\<lparr>n_id = ''a1'', n_type = ''agent'', n_x = Fin (- 100), n_y = Fin 1100,
       n_vx = Fin 0, n_vy = Fin 0\<rparr>,
      \<lparr>n_id = ''f1'', n_type = ''form'', n_x = Fin (- 100), n_y = Fin 1100,
       n_vx = Fin 0, n_vy = Fin 0\<rparr>]"

text \<open>Two nodes at rest, 121 apart, the first on the point gravity pulls to; and two such
  nodes 200 apart.\<close>

definition rest_pair_121 :: "node list" where
  "rest_pair_121 =
     [\<lparr>n_id = ''a1'', n_type = ''agent'', n_x = Fin 700, n_y = Fin 300, n_vx = Fin 0, n_vy = Fin 0\<rparr>,
      \<lparr>n_id = ''f1'', n_type = ''form'', n_x = Fin 821, n_y = Fin 300, n_vx = Fin 0, n_vy = Fin 0\<rparr>]"

definition rest_pair_200 :: "node list" where
  "rest_pair_200 =
     [\<lparr>n_id = ''a1'', n_type = ''agent'', n_x = Fin 700, n_y = Fin 300, n_vx = Fin 0, n_vy = Fin 0\<rparr>,
      \<lparr>n_id = ''f1'', n_type = ''form'', n_x = Fin 900, n_y = Fin 300, n_vx = Fin 0, n_vy = Fin 0\<rparr>]"

text \<open>The end-to-end scenario with the first node at rest on the point gravity pulls to,
  and draws that place the second node 121 to its right.\<close>

definition held_a1_rest :: physics where
  "held_a1_rest =
     \<lparr>ph_nodes = [\<lparr>n_id = ''a1'', n_type = ''agent'',
                   n_x = Fin 700, n_y = Fin 300, n_vx = Fin 0, n_vy = Fin 0\<rparr>],
      ph_links = []\<rparr>"

definition draws_821 :: "nat \<Rightarrow> real" where
  "draws_821 k = (if k = 0 then 821 / 1000 else 6 / 10)"

text \<open>The scenario with the first node drifting right at half a pixel per frame, and
  draws that place the second node 126 to its left.\<close>

definition held_a1_drift :: physics where
  "held_a1_drift =
     \<lparr>ph_nodes = [\<lparr>n_id = ''a1'', n_type = ''agent'',
                   n_x = Fin 400, n_y = Fin 300, n_vx = Fin (1 / 2), n_vy = Fin 0\<rparr>],
      ph_links = []\<rparr>"

definition draws_274 :: "nat \<Rightarrow> real" where
  "draws_274 k = (if k = 0 then 274 / 1000 else 6 / 10)"

definition drifting_pair :: "node list" where
  "drifting_pair =
     [\<lparr>n_id = ''a1'', n_type = ''agent'', n_x = Fin 400, n_y = Fin 300, n_vx = Fin (1 / 2), n_vy = Fin 0\<rparr>,
      \<lparr>n_id = ''f1'', n_type = ''form'', n_x = Fin 274, n_y = Fin 300, n_vx = Fin 0, n_vy = Fin 0\<rparr>]"

text \<open>The scenario in a viewport of 400 by 800, whose obstacle has centre \<open>(-80, 640)\<close> and
  radius 480: the first node at rest left of the centre, and draws that place the second
  node 168 to its right, both 300 from the centre.\<close>

definition held_a1_left :: physics where
  "held_a1_left =
     \<lparr>ph_nodes = [\<lparr>n_id = ''a1'', n_type = ''agent'',
                   n_x = Fin (- 164), n_y = Fin 352, n_vx = Fin 0, n_vy = Fin 0\<rparr>],
      ph_links = []\<rparr>"

definition draws_4 :: "nat \<Rightarrow> real" where
  "draws_4 k = (if k = 0 then 1 / 100 else 88 / 100)"

definition zone_pair :: "node list" where
  "zone_pair =
     [\<lparr>n_id = ''a1'', n_type = ''agent'', n_x = Fin (- 164), n_y = Fin 352, n_vx = Fin 0, n_vy = Fin 0\<rparr>,
      \<lparr>n_id = ''f1'', n_type = ''form'', n_x = Fin 4, n_y = Fin 352, n_vx = Fin 0, n_vy = Fin 0\<rparr>]"

text \<open>Draws of \<^verbatim>\<open>Math.random()\<close> that start with 0.11 and go on with 0.76.\<close>

definition draws_inside :: "nat \<Rightarrow> real" where
  "draws_inside k = (if k = 0 then 11 / 100 else 76 / 100)"

section \<open>Auxiliary notions\<close>

text \<open>The Euclidean distance between two nodes, as the spring phase computes it before
  its floor.\<close>

definition node_dist :: "node \<Rightarrow> node \<Rightarrow> number" where
  "node_dist a b =
     (let dx = num_sub (n_x b) (n_x a);
          dy = num_sub (n_y b) (n_y a)
      in num_sqrt (num_add (num_mul dx dx) (num_mul dy dy)))"


text \<open>What the first two phases of a step never write: identity, type and position.\<close>

definition frame :: "node \<Rightarrow> string \<times> string \<times> number \<times> number" where
  "frame n = (n_id n, n_type n, n_x n, n_y n)"

text \<open>The divisor of the repulsion force as a real, for finite offsets.\<close>

definition clampSq :: "real \<Rightarrow> real \<Rightarrow> real" where
  "clampSq dx dy = (if dx * dx + dy * dy = 0 then 1 else dx * dx + dy * dy)"

text \<open>The floor of the spring phase on a real distance: \<^verbatim>\<open>d || 1\<close>.\<close>

definition floor1 :: "real \<Rightarrow> real" where
  "floor1 d = (if d = 0 then 1 else d)"

text \<open>A node all of whose kinematic fields are finite.\<close>

definition fin_node :: "node \<Rightarrow> bool" where
  "fin_node n \<longleftrightarrow> is_fin (n_x n) \<and> is_fin (n_y n) \<and> is_fin (n_vx n) \<and> is_fin (n_vy n)"

section \<open>Arithmetic of the special values\<close>

lemma num_add_NaN_right: "num_add a NaN = NaN"
  by (cases a) simp_all

lemma num_mul_NaN_left: "num_mul NaN a = NaN"
  by (cases a) simp_all

lemma num_sub_Fin [simp]: "num_sub (Fin a) (Fin b) = Fin (a - b)"
  by (simp add: num_sub_def)

lemma is_fin_iff: "is_fin a \<longleftrightarrow> (\<exists>r. a = Fin r)"
  by (cases a) simp_all

section \<open>The obstacle model\<close>

text \<open>
  Claim C6. For a viewport of width \<open>w\<close> and height \<open>h\<close> the obstacle model returns
  \<open>x = -0.1w\<close>, \<open>y = 1.1h\<close>, \<open>radius = 0.8 min(w, h)\<close> when \<open>w \<ge> 768\<close>, and
  \<open>x = -0.2w\<close>, \<open>y = 0.8h\<close>, \<open>radius = 0.6h\<close> when \<open>w < 768\<close>.
\<close>

theorem getPlanetConfig_formula:
  "getPlanetConfig (Fin w) (Fin h) =
     (if 768 \<le> w
      then \<lparr>p_x = Fin (- 0.1 * w), p_y = Fin (1.1 * h), p_radius = Fin (0.8 * min w h)\<rparr>
      else \<lparr>p_x = Fin (- 0.2 * w), p_y = Fin (0.8 * h), p_radius = Fin (0.6 * h)\<rparr>)"
  by (simp add: getPlanetConfig_def Let_def min_def)

theorem getPlanetConfig_formula_witness:
  "getPlanetConfig (Fin 1000) (Fin 800) = \<lparr>p_x = Fin (- 100), p_y = Fin 880, p_radius = Fin 640\<rparr> \<and>
   getPlanetConfig (Fin 400) (Fin 800) = \<lparr>p_x = Fin (- 80), p_y = Fin 640, p_radius = Fin 480\<rparr>"
  using getPlanetConfig_formula [of 1000 800] getPlanetConfig_formula [of 400 800]
  by simp

text \<open>The canvas has natural-number dimensions, so its obstacle is finite with a radius
  that is not negative.\<close>

lemma getPlanetConfig_Fin:
  "getPlanetConfig (Fin w) (Fin h) =
     (if 768 \<le> w
      then \<lparr>p_x = Fin (- 0.1 * w), p_y = Fin (1.1 * h), p_radius = Fin (0.8 * min w h)\<rparr>
      else \<lparr>p_x = Fin (- 0.2 * w), p_y = Fin (0.8 * h), p_radius = Fin (0.6 * h)\<rparr>)"
  by (simp add: getPlanetConfig_def Let_def min_def)

lemma planet_of_canvas:
  "\<exists>px py r. getPlanetConfig (Fin (real cw)) (Fin (real ch)) =
       \<lparr>p_x = Fin px, p_y = Fin py, p_radius = Fin r\<rparr> \<and> 0 \<le> r"
proof (cases "768 \<le> real cw")
  case True
  then have "getPlanetConfig (Fin (real cw)) (Fin (real ch)) =
      \<lparr>p_x = Fin (- 0.1 * real cw), p_y = Fin (1.1 * real ch),
       p_radius = Fin (0.8 * min (real cw) (real ch))\<rparr>"
    by (simp add: getPlanetConfig_Fin)
  moreover have "0 \<le> 0.8 * min (real cw) (real ch)" by simp
  ultimately show ?thesis by blast
next
  case False
  then have "getPlanetConfig (Fin (real cw)) (Fin (real ch)) =
      \<lparr>p_x = Fin (- 0.2 * real cw), p_y = Fin (0.8 * real ch), p_radius = Fin (0.6 * real ch)\<rparr>"
    by (simp add: getPlanetConfig_Fin)
  moreover have "0 \<le> 0.6 * real ch" by simp
  ultimately show ?thesis by blast
qed

section \<open>Reconciliation\<close>

lemma newNodes_ids: "map n_id (newNodes rnd k w h held gs) = map g_id gs"
  by (induction gs arbitrary: k) (simp_all split: option.splits)

lemma newNodes_found:
  "n \<in> set (newNodes rnd k w h held gs) \<Longrightarrow>
   find (\<lambda>old. n_id old = n_id n) held = Some e \<Longrightarrow>
   n_x n = n_x e \<and> n_y n = n_y e \<and> n_vx n = n_vx e \<and> n_vy n = n_vy e"
  by (induction gs arbitrary: k) (auto split: option.splits)

lemma newNodes_fresh:
  "n \<in> set (newNodes rnd k w h held gs) \<Longrightarrow>
   find (\<lambda>old. n_id old = n_id n) held = None \<Longrightarrow>
   \<exists>i. n_x n = num_mul (Fin (rnd i)) w \<and>
       n_y n = num_mul (num_mul (Fin (rnd (i + 1))) h) (Fin 0.5) \<and>
       n_vx n = Fin 0 \<and> n_vy n = Fin 0"
  by (induction gs arbitrary: k) (auto split: option.splits)

lemma find_distinct_ids:
  "distinct (map n_id held) \<Longrightarrow> e \<in> set held \<Longrightarrow>
   find (\<lambda>old. n_id old = n_id e) held = Some e"
  by (induction held) (auto simp: image_iff)

lemma find_present:
  "k \<in> n_id ` set held \<Longrightarrow> \<exists>e. find (\<lambda>old. n_id old = k) held = Some e"
  by (induction held) auto

lemma find_absent: "k \<notin> n_id ` set held \<Longrightarrow> find (\<lambda>old. n_id old = k) held = None"
  by (induction held) auto

text \<open>
  Claim C1. After reconciliation, before any integration step, every node whose id is
  present in the held node list has exactly the \<open>x\<close>, \<open>y\<close>, \<open>vx\<close>, \<open>vy\<close> of the held
  node with that id: the one \<^verbatim>\<open>find\<close> returns, which is the only one when the held ids
  are distinct.
\<close>

theorem reconcile_preserves_kinematics:
  assumes "n \<in> set (ph_nodes (reconcile rnd innerWidth innerHeight current graphData))"
    and "n_id n \<in> n_id ` set (ph_nodes current)"
  shows "(\<exists>e. find (\<lambda>old. n_id old = n_id n) (ph_nodes current) = Some e \<and>
              n_x n = n_x e \<and> n_y n = n_y e \<and> n_vx n = n_vx e \<and> n_vy n = n_vy e) \<and>
         (distinct (map n_id (ph_nodes current)) \<longrightarrow>
            (\<forall>e \<in> set (ph_nodes current). n_id e = n_id n \<longrightarrow>
               n_x n = n_x e \<and> n_y n = n_y e \<and> n_vx n = n_vx e \<and> n_vy n = n_vy e))"
proof -
  from assms(1) have mem:
    "n \<in> set (newNodes rnd 0 (Fin (real innerWidth)) (Fin (real innerHeight))
                (ph_nodes current) (gd_nodes graphData))"
    by (simp add: reconcile_def)
  from find_present [OF assms(2)] obtain e
    where e: "find (\<lambda>old. n_id old = n_id n) (ph_nodes current) = Some e" by blast
  from newNodes_found [OF mem e] e
  have first: "\<exists>e. find (\<lambda>old. n_id old = n_id n) (ph_nodes current) = Some e \<and>
              n_x n = n_x e \<and> n_y n = n_y e \<and> n_vx n = n_vx e \<and> n_vy n = n_vy e"
    by blast
  have second: "n_x n = n_x e' \<and> n_y n = n_y e' \<and> n_vx n = n_vx e' \<and> n_vy n = n_vy e'"
    if "distinct (map n_id (ph_nodes current))" "e' \<in> set (ph_nodes current)" "n_id e' = n_id n"
    for e'
  proof -
    from find_distinct_ids [OF that(1,2)] that(3)
    have "find (\<lambda>old. n_id old = n_id n) (ph_nodes current) = Some e'" by simp
    from newNodes_found [OF mem this] show ?thesis .
  qed
  from first second show ?thesis by blast
qed

theorem reconcile_preserves_kinematics_witness:
  "ph_nodes (reconcile draws_half 1000 800 held_a1 snapshot_a1_f1) ! 0
      \<in> set (ph_nodes (reconcile draws_half 1000 800 held_a1 snapshot_a1_f1)) \<and>
   n_id (ph_nodes (reconcile draws_half 1000 800 held_a1 snapshot_a1_f1) ! 0)
      \<in> n_id ` set (ph_nodes held_a1) \<and>
   ph_nodes (reconcile draws_half 1000 800 held_a1 snapshot_a1_f1) ! 0 =
     \<lparr>n_id = ''a1'', n_type = ''agent'', n_x = Fin 3, n_y = Fin 4, n_vx = Fin 1, n_vy = Fin 2\<rparr>"
  using reconcile_preserves_kinematics
    [of "ph_nodes (reconcile draws_half 1000 800 held_a1 snapshot_a1_f1) ! 0"
        draws_half 1000 800 held_a1 snapshot_a1_f1]
  by (simp add: reconcile_def held_a1_def snapshot_a1_f1_def)

text \<open>
  Claim C4, as amended. Every node introduced by reconciliation, its id not held before,
  has \<open>vx = vy = 0\<close>, \<open>0 \<le> x \<le> width\<close> and \<open>0 \<le> y \<le> height/2\<close>, with \<open>x < width\<close> when
  the width is positive and \<open>y < height/2\<close> when the height is positive. The draws of
  \<^verbatim>\<open>Math.random()\<close> lie in \<open>[0, 1)\<close>.
\<close>

theorem spawn_region:
  assumes "n \<in> set (ph_nodes (reconcile rnd innerWidth innerHeight current graphData))"
    and "n_id n \<notin> n_id ` set (ph_nodes current)"
    and "\<forall>k. 0 \<le> rnd k \<and> rnd k < 1"
  shows "\<exists>a b. n_x n = Fin a \<and> n_y n = Fin b \<and>
           0 \<le> a \<and> a \<le> real innerWidth \<and> (0 < innerWidth \<longrightarrow> a < real innerWidth) \<and>
           0 \<le> b \<and> b \<le> real innerHeight / 2 \<and>
           (0 < innerHeight \<longrightarrow> b < real innerHeight / 2) \<and>
           n_vx n = Fin 0 \<and> n_vy n = Fin 0"
proof -
  from assms(1) have mem:
    "n \<in> set (newNodes rnd 0 (Fin (real innerWidth)) (Fin (real innerHeight))
                (ph_nodes current) (gd_nodes graphData))"
    by (simp add: reconcile_def)
  from newNodes_fresh [OF mem find_absent [OF assms(2)]] obtain i where
    i: "n_x n = Fin (rnd i * real innerWidth)"
       "n_y n = Fin (rnd (i + 1) * real innerHeight * 0.5)"
       "n_vx n = Fin 0" "n_vy n = Fin 0"
    by auto
  from assms(3) have r1: "0 \<le> rnd i" "rnd i < 1" and r2: "0 \<le> rnd (i + 1)" "rnd (i + 1) < 1"
    by simp_all
  have a: "0 \<le> rnd i * real innerWidth" "rnd i * real innerWidth \<le> real innerWidth"
    using r1 by (simp_all add: mult_left_le_one_le)
  have a': "rnd i * real innerWidth < real innerWidth" if "0 < innerWidth"
    using r1 that by simp
  have b: "0 \<le> rnd (i + 1) * real innerHeight * 0.5"
          "rnd (i + 1) * real innerHeight * 0.5 \<le> real innerHeight / 2"
    using r2 by (simp_all add: mult_left_le_one_le)
  have b': "rnd (i + 1) * real innerHeight * 0.5 < real innerHeight / 2" if "0 < innerHeight"
    using r2 that by simp
  from i a a' b b' show ?thesis by blast
qed

theorem spawn_region_witness:
  "ph_nodes (reconcile draws_half 1000 800 held_a1 snapshot_a1_f1) ! 1
      \<in> set (ph_nodes (reconcile draws_half 1000 800 held_a1 snapshot_a1_f1)) \<and>
   n_id (ph_nodes (reconcile draws_half 1000 800 held_a1 snapshot_a1_f1) ! 1)
      \<notin> n_id ` set (ph_nodes held_a1) \<and>
   (\<forall>k. 0 \<le> draws_half k \<and> draws_half k < 1) \<and>
   ph_nodes (reconcile draws_half 1000 800 held_a1 snapshot_a1_f1) ! 1 =
     \<lparr>n_id = ''f1'', n_type = ''form'', n_x = Fin 500, n_y = Fin 200, n_vx = Fin 0, n_vy = Fin 0\<rparr>"
  using spawn_region
    [of "ph_nodes (reconcile draws_half 1000 800 held_a1 snapshot_a1_f1) ! 1"
        draws_half 1000 800 held_a1 snapshot_a1_f1]
  by (simp add: reconcile_def held_a1_def snapshot_a1_f1_def draws_half_def)

text \<open>In a viewport of width and height 0 the first node of the first snapshot is new and
  is placed at \<open>(0, 0)\<close>: neither \<open>x < width\<close> nor \<open>y < height/2\<close> holds.\<close>

theorem spawn_region_counterexample:
  "n_id (ph_nodes (reconcile draws_half 0 0 initial_physics snapshot_a1) ! 0)
      \<notin> n_id ` set (ph_nodes initial_physics) \<and>
   n_x (ph_nodes (reconcile draws_half 0 0 initial_physics snapshot_a1) ! 0) = Fin 0 \<and>
   n_y (ph_nodes (reconcile draws_half 0 0 initial_physics snapshot_a1) ! 0) = Fin 0 \<and>
   \<not> num_lt (n_x (ph_nodes (reconcile draws_half 0 0 initial_physics snapshot_a1) ! 0))
       (Fin (real (0::nat))) \<and>
   \<not> num_lt (n_y (ph_nodes (reconcile draws_half 0 0 initial_physics snapshot_a1) ! 0))
       (Fin (real (0::nat) / 2))"
  by (simp add: reconcile_def initial_physics_def snapshot_a1_def draws_half_def)

section \<open>Repulsion\<close>

lemma clampSq_pos: "0 < clampSq dx dy"
proof -
  have "0 \<le> dx * dx + dy * dy" by simp
  then show ?thesis unfolding clampSq_def by (simp add: less_le)
qed

lemma repulsion_distSq_Fin: "repulsion_distSq (Fin dx) (Fin dy) = Fin (clampSq dx dy)"
  by (simp add: repulsion_distSq_def clampSq_def)

lemma repulsion_force_Fin: "repulsion_force (Fin dx) (Fin dy) = Fin (2000 / clampSq dx dy)"
  using clampSq_pos [of dx dy]
  by (simp add: repulsion_force_def repulsion_distSq_Fin REPULSION_def)

lemma repulsion_delta_Fin:
  "repulsion_delta (Fin dx) (Fin dy) =
     (Fin (dx / sqrt (clampSq dx dy) * (2000 / clampSq dx dy)),
      Fin (dy / sqrt (clampSq dx dy) * (2000 / clampSq dx dy)))"
  using clampSq_pos [of dx dy]
  by (simp add: repulsion_delta_def repulsion_force_Fin repulsion_distSq_Fin Let_def)

text \<open>
  Claim C7, as amended. Let \<open>s\<close> be the squared distance as the phase computes it,
  \<^verbatim>\<open>dx*dx + dy*dy\<close>. It is replaced by 1 only when it is exactly 0 (coincident nodes, or
  offsets whose squares vanish in the computation), and then the force is \<open>R\<close>; any other
  value of \<open>s\<close> is the divisor as it is and the force is \<open>R / s\<close>. There is no clamp to 1:
  for \<open>0 < s < 1\<close> the divisor is below 1 and the force exceeds \<open>R\<close>.
\<close>

theorem repulsion_divisor:
  assumes "num_add (num_mul dx dx) (num_mul dy dy) = s"
  shows "(s = Fin 0 \<longrightarrow> repulsion_distSq dx dy = Fin 1 \<and> repulsion_force dx dy = Fin 2000) \<and>
         (s \<noteq> Fin 0 \<longrightarrow> repulsion_distSq dx dy = s \<and> repulsion_force dx dy = num_div REPULSION s) \<and>
         (\<forall>r. s = Fin r \<and> 0 < r \<and> r < 1 \<longrightarrow>
            num_lt (repulsion_distSq dx dy) (Fin 1) \<and> num_lt REPULSION (repulsion_force dx dy))"
proof -
  have zero: "repulsion_distSq dx dy = Fin 1 \<and> repulsion_force dx dy = Fin 2000" if "s = Fin 0"
    using that assms by (simp add: repulsion_distSq_def repulsion_force_def REPULSION_def)
  have seq: "\<not> num_seq s (Fin 0)" if "s \<noteq> Fin 0"
    using that by (cases s) simp_all
  have nonzero: "repulsion_distSq dx dy = s \<and> repulsion_force dx dy = num_div REPULSION s"
    if "s \<noteq> Fin 0"
    using seq [OF that] assms by (simp add: repulsion_distSq_def repulsion_force_def)
  have small: "num_lt (repulsion_distSq dx dy) (Fin 1) \<and> num_lt REPULSION (repulsion_force dx dy)"
    if "s = Fin r \<and> 0 < r \<and> r < 1" for r
  proof -
    from that have r: "s = Fin r" "0 < r" "r < 1" by simp_all
    then have "s \<noteq> Fin 0" by simp
    from nonzero [OF this] r show ?thesis
      by (simp add: REPULSION_def pos_less_divide_eq)
  qed
  from zero nonzero small show ?thesis by blast
qed

theorem repulsion_divisor_witness:
  "num_add (num_mul (Fin (1 / 2)) (Fin (1 / 2))) (num_mul (Fin 0) (Fin 0)) = Fin (1 / 4) \<and>
   Fin (1 / 4) \<noteq> Fin 0 \<and>
   repulsion_distSq (Fin (1 / 2)) (Fin 0) = Fin (1 / 4) \<and>
   repulsion_force (Fin (1 / 2)) (Fin 0) = num_div REPULSION (Fin (1 / 4)) \<and>
   num_lt (repulsion_distSq (Fin (1 / 2)) (Fin 0)) (Fin 1) \<and>
   num_lt REPULSION (repulsion_force (Fin (1 / 2)) (Fin 0)) \<and>
   num_add (num_mul (Fin 0) (Fin 0)) (num_mul (Fin 0) (Fin 0)) = Fin 0 \<and>
   repulsion_distSq (Fin 0) (Fin 0) = Fin 1 \<and>
   repulsion_force (Fin 0) (Fin 0) = Fin 2000"
proof -
  have h1: "num_add (num_mul (Fin (1 / 2)) (Fin (1 / 2))) (num_mul (Fin 0) (Fin 0)) = Fin (1 / 4)"
    by simp
  have h2: "num_add (num_mul (Fin 0) (Fin 0)) (num_mul (Fin 0) (Fin 0)) = Fin 0"
    by simp
  have q: "Fin (1 / 4) \<noteq> Fin 0" "(0::real) < 1 / 4" "(1::real) / 4 < 1" by simp_all
  from repulsion_divisor [OF h1] q
  have a: "repulsion_distSq (Fin (1 / 2)) (Fin 0) = Fin (1 / 4) \<and>
           repulsion_force (Fin (1 / 2)) (Fin 0) = num_div REPULSION (Fin (1 / 4))"
    and b: "num_lt (repulsion_distSq (Fin (1 / 2)) (Fin 0)) (Fin 1) \<and>
            num_lt REPULSION (repulsion_force (Fin (1 / 2)) (Fin 0))"
    by blast+
  from repulsion_divisor [OF h2]
  have c: "repulsion_distSq (Fin 0) (Fin 0) = Fin 1 \<and> repulsion_force (Fin 0) (Fin 0) = Fin 2000"
    by blast
  from h1 h2 q(1) a b c show ?thesis by blast
qed

text \<open>Two nodes half a pixel apart: the divisor is \<open>1/4\<close>, not \<open>max (1/4) 1\<close>, the force
  is 8000, not 2000, and that is what the two velocities receive.\<close>

theorem repulsion_divisor_counterexample:
  "repulsion_distSq (Fin (1 / 2)) (Fin 0) = Fin (1 / 4) \<and>
   repulsion_distSq (Fin (1 / 2)) (Fin 0) \<noteq> Fin (max ((1 / 2) * (1 / 2) + 0 * 0) 1) \<and>
   repulsion_force (Fin (1 / 2)) (Fin 0) = Fin 8000 \<and>
   repulsion_force (Fin (1 / 2)) (Fin 0) \<noteq> Fin (2000 / max ((1 / 2) * (1 / 2) + 0 * 0) 1) \<and>
   n_vx (repulse_pair 0 1 close_pair ! 0) = Fin 8000 \<and>
   n_vx (repulse_pair 0 1 close_pair ! 1) = Fin (- 8000)"
  by (simp add: repulsion_distSq_def repulsion_force_def REPULSION_def repulse_pair_def
      repulsion_delta_def close_pair_def Let_def real_sqrt_divide)

text \<open>
  Claim C2. In the repulsion of the pair of nodes at indices \<open>i < j\<close>, the velocity of
  node \<open>i\<close> receives a delta \<open>(fx, fy)\<close> and the velocity of node \<open>j\<close> receives exactly its
  negation; no other node and no other field changes, and the delta is finite when the
  two positions are.
\<close>

theorem repulsion_symmetry:
  assumes "i < j" and "j < length ns"
  shows "\<exists>fx fy.
           repulse_pair i j ns ! i =
             (ns ! i)\<lparr>n_vx := num_add (n_vx (ns ! i)) fx, n_vy := num_add (n_vy (ns ! i)) fy\<rparr> \<and>
           repulse_pair i j ns ! j =
             (ns ! j)\<lparr>n_vx := num_add (n_vx (ns ! j)) (num_neg fx),
                      n_vy := num_add (n_vy (ns ! j)) (num_neg fy)\<rparr> \<and>
           (is_fin (n_x (ns ! i)) \<and> is_fin (n_y (ns ! i)) \<and>
            is_fin (n_x (ns ! j)) \<and> is_fin (n_y (ns ! j)) \<longrightarrow> is_fin fx \<and> is_fin fy) \<and>
           (\<forall>k. k \<noteq> i \<and> k \<noteq> j \<longrightarrow> repulse_pair i j ns ! k = ns ! k)"
proof -
  define dx where "dx = num_sub (n_x (ns ! i)) (n_x (ns ! j))"
  define dy where "dy = num_sub (n_y (ns ! i)) (n_y (ns ! j))"
  define fx where "fx = fst (repulsion_delta dx dy)"
  define fy where "fy = snd (repulsion_delta dx dy)"
  from assms have ij: "i \<noteq> j" "i < length ns" by simp_all
  have at_i: "repulse_pair i j ns ! i =
      (ns ! i)\<lparr>n_vx := num_add (n_vx (ns ! i)) fx, n_vy := num_add (n_vy (ns ! i)) fy\<rparr>"
    using ij assms by (simp add: repulse_pair_def Let_def dx_def dy_def fx_def fy_def)
  have at_j: "repulse_pair i j ns ! j =
      (ns ! j)\<lparr>n_vx := num_add (n_vx (ns ! j)) (num_neg fx),
               n_vy := num_add (n_vy (ns ! j)) (num_neg fy)\<rparr>"
    using ij assms
    by (simp add: repulse_pair_def Let_def dx_def dy_def fx_def fy_def num_sub_def)
  have fin: "is_fin fx \<and> is_fin fy"
    if "is_fin (n_x (ns ! i)) \<and> is_fin (n_y (ns ! i)) \<and>
        is_fin (n_x (ns ! j)) \<and> is_fin (n_y (ns ! j))"
  proof -
    from that obtain a b c d where
      "n_x (ns ! i) = Fin a" "n_y (ns ! i) = Fin b" "n_x (ns ! j) = Fin c" "n_y (ns ! j) = Fin d"
      by (auto simp: is_fin_iff)
    then show ?thesis
      by (simp add: fx_def fy_def dx_def dy_def repulsion_delta_Fin)
  qed
  have other: "repulse_pair i j ns ! k = ns ! k" if "k \<noteq> i \<and> k \<noteq> j" for k
    using that by (simp add: repulse_pair_def Let_def)
  from at_i at_j fin other show ?thesis by blast
qed

theorem repulsion_symmetry_witness:
  "(0::nat) < 1 \<and> 1 < length close_pair \<and>
   (\<exists>fx fy.
      repulse_pair 0 1 close_pair ! 0 =
        (close_pair ! 0)\<lparr>n_vx := num_add (n_vx (close_pair ! 0)) fx,
                         n_vy := num_add (n_vy (close_pair ! 0)) fy\<rparr> \<and>
      repulse_pair 0 1 close_pair ! 1 =
        (close_pair ! 1)\<lparr>n_vx := num_add (n_vx (close_pair ! 1)) (num_neg fx),
                         n_vy := num_add (n_vy (close_pair ! 1)) (num_neg fy)\<rparr>)"
proof -
  have h: "(0::nat) < 1" "1 < length close_pair" by (simp_all add: close_pair_def)
  from repulsion_symmetry [OF h] have ex: "\<exists>fx fy.
      repulse_pair 0 1 close_pair ! 0 =
        (close_pair ! 0)\<lparr>n_vx := num_add (n_vx (close_pair ! 0)) fx,
                         n_vy := num_add (n_vy (close_pair ! 0)) fy\<rparr> \<and>
      repulse_pair 0 1 close_pair ! 1 =
        (close_pair ! 1)\<lparr>n_vx := num_add (n_vx (close_pair ! 1)) (num_neg fx),
                         n_vy := num_add (n_vy (close_pair ! 1)) (num_neg fy)\<rparr>"
    by (elim exE conjE) (intro exI conjI, assumption+)
  from h ex show ?thesis by (intro conjI)
qed

section \<open>What the first two phases leave alone\<close>

lemma map_update_same: "(map f xs)[i := f (xs ! i)] = map f xs"
  by (metis list_update_id map_update)

lemma frame_vel [simp]: "frame (n\<lparr>n_vx := a, n_vy := b\<rparr>) = frame n"
  by (simp add: frame_def)

lemma map_frame_update:
  "frame n' = frame (ns ! i) \<Longrightarrow> map frame (ns[i := n']) = map frame ns"
  by (simp add: map_update map_update_same)

lemma repulse_pair_frame: "map frame (repulse_pair i j ns) = map frame ns"
  by (simp add: repulse_pair_def Let_def map_frame_update)

lemma repulse_pair_length: "length (repulse_pair i j ns) = length ns"
  by (simp add: repulse_pair_def Let_def)

lemma fold_frame:
  "(\<And>a xs. map frame (f a xs) = map frame xs) \<Longrightarrow> map frame (fold f as ns) = map frame ns"
  by (induction as arbitrary: ns) simp_all

lemma repulsion_frame: "map frame (repulsion ns) = map frame ns"
  unfolding repulsion_def by (intro fold_frame repulse_pair_frame)

lemma spring_link_frame: "map frame (spring_link l ns) = map frame ns"
  by (simp add: spring_link_def Let_def map_frame_update split: option.splits)

lemma springs_frame: "map frame (springs ls ns) = map frame ns"
  unfolding springs_def by (intro fold_frame spring_link_frame)

lemma frame_nth:
  assumes eq: "map frame ns = map frame ms" and i: "i < length ms"
  shows "n_id (ns ! i) = n_id (ms ! i) \<and> n_type (ns ! i) = n_type (ms ! i) \<and>
         n_x (ns ! i) = n_x (ms ! i) \<and> n_y (ns ! i) = n_y (ms ! i)"
proof -
  from eq have len: "length ns = length ms" by (metis length_map)
  from eq have "map frame ns ! i = map frame ms ! i" by simp
  with i len have "frame (ns ! i) = frame (ms ! i)" by simp
  then show ?thesis by (simp add: frame_def)
qed

lemma frame_ids: "map frame ns = map frame ms \<Longrightarrow> map n_id ns = map n_id ms"
proof -
  assume "map frame ns = map frame ms"
  then have "map (fst \<circ> frame) ns = map (fst \<circ> frame) ms"
    by (metis map_map)
  moreover have "fst \<circ> frame = n_id" by (rule ext) (simp add: frame_def)
  ultimately show ?thesis by simp
qed

lemma ids_set: "map n_id ns = map n_id ms \<Longrightarrow> n_id ` set ns = n_id ` set ms"
  by (metis set_map)

lemma phases_frame_nth:
  assumes "i < length ns"
  shows "n_x (springs ls (repulsion ns) ! i) = n_x (ns ! i) \<and>
         n_y (springs ls (repulsion ns) ! i) = n_y (ns ! i) \<and>
         n_id (springs ls (repulsion ns) ! i) = n_id (ns ! i)"
proof -
  have "map frame (springs ls (repulsion ns)) = map frame ns"
    by (simp add: springs_frame repulsion_frame)
  from frame_nth [OF this assms] show ?thesis by simp
qed

lemma gravity_planet_id [simp]: "n_id (gravity_planet w h pl n) = n_id n"
  by (simp add: gravity_planet_def Let_def)

lemma physics_step_ids: "map n_id (ph_nodes (physics_step cw ch p)) = map n_id (ph_nodes p)"
proof -
  have "map n_id (springs (ph_links p) (repulsion (ph_nodes p))) = map n_id (ph_nodes p)"
    by (metis frame_ids springs_frame repulsion_frame)
  then show ?thesis by (simp add: physics_step_def Let_def comp_def)
qed

lemma physics_step_nth:
  assumes "i < length (ph_nodes p)"
  shows "ph_nodes (physics_step cw ch p) ! i =
           gravity_planet (Fin (real cw)) (Fin (real ch))
             (getPlanetConfig (Fin (real cw)) (Fin (real ch)))
             (springs (ph_links p) (repulsion (ph_nodes p)) ! i)"
proof -
  have "map frame (springs (ph_links p) (repulsion (ph_nodes p))) = map frame (ph_nodes p)"
    by (simp add: springs_frame repulsion_frame)
  then have "length (springs (ph_links p) (repulsion (ph_nodes p))) = length (ph_nodes p)"
    by (metis length_map)
  with assms show ?thesis by (simp add: physics_step_def Let_def)
qed

section \<open>Links whose ends are gone\<close>

lemma find_idx_None: "find_idx k ns = None \<longleftrightarrow> k \<notin> n_id ` set ns"
  by (induction ns) auto

lemma find_idx_Some: "find_idx k ns = Some i \<Longrightarrow> i < length ns \<and> n_id (ns ! i) = k"
  by (induction ns arbitrary: i) (auto split: if_splits)

lemma spring_link_dangling:
  "l_source l \<notin> n_id ` set ns \<or> l_target l \<notin> n_id ` set ns \<Longrightarrow> spring_link l ns = ns"
  by (auto simp: spring_link_def find_idx_None [symmetric] split: option.splits)

lemma draw_edge_dangling:
  "l_source l \<notin> n_id ` set ns \<or> l_target l \<notin> n_id ` set ns \<Longrightarrow> draw_edge ns l = []"
  by (auto simp: draw_edge_def find_idx_None [symmetric] split: option.splits)

lemma springs_skip:
  assumes "l_source l \<notin> n_id ` set ns \<or> l_target l \<notin> n_id ` set ns"
  shows "springs (before @ l # after) ns = springs (before @ after) ns"
proof -
  have "n_id ` set (springs before ns) = n_id ` set ns"
    by (intro ids_set frame_ids springs_frame)
  with assms have "spring_link l (springs before ns) = springs before ns"
    by (intro spring_link_dangling) simp
  then show ?thesis by (simp add: springs_def)
qed

text \<open>
  Claim C5. A held link whose source id or target id is not the id of a node of the
  current node list has no effect on the tick: the integration step leaves every node as
  it does without the link, and the edges drawn are those drawn without it. The step and
  the drawing are total functions: there is no error to raise.
\<close>

theorem dangling_link_ignored:
  assumes "l_source l \<notin> n_id ` set ns \<or> l_target l \<notin> n_id ` set ns"
  shows "ph_nodes (physics_step cw ch \<lparr>ph_nodes = ns, ph_links = before @ l # after\<rparr>) =
         ph_nodes (physics_step cw ch \<lparr>ph_nodes = ns, ph_links = before @ after\<rparr>) \<and>
         draw_edges
           (ph_nodes (physics_step cw ch \<lparr>ph_nodes = ns, ph_links = before @ l # after\<rparr>))
           (before @ l # after) =
         draw_edges
           (ph_nodes (physics_step cw ch \<lparr>ph_nodes = ns, ph_links = before @ after\<rparr>))
           (before @ after)"
proof -
  let ?p = "\<lparr>ph_nodes = ns, ph_links = before @ l # after\<rparr>"
  let ?q = "\<lparr>ph_nodes = ns, ph_links = before @ after\<rparr>"
  have "n_id ` set (repulsion ns) = n_id ` set ns"
    by (intro ids_set frame_ids repulsion_frame)
  with assms
  have "springs (before @ l # after) (repulsion ns) = springs (before @ after) (repulsion ns)"
    by (intro springs_skip) simp
  then have nodes: "ph_nodes (physics_step cw ch ?p) = ph_nodes (physics_step cw ch ?q)"
    by (simp add: physics_step_def Let_def)
  have "n_id ` set (ph_nodes (physics_step cw ch ?q)) = n_id ` set ns"
    using ids_set [OF physics_step_ids [of cw ch ?q]] by simp
  with assms have "draw_edge (ph_nodes (physics_step cw ch ?q)) l = []"
    by (intro draw_edge_dangling) simp
  then have "draw_edges (ph_nodes (physics_step cw ch ?q)) (before @ l # after) =
             draw_edges (ph_nodes (physics_step cw ch ?q)) (before @ after)"
    by (simp add: draw_edges_def)
  with nodes show ?thesis by simp
qed

theorem dangling_link_ignored_witness:
  "l_target link_gone \<notin> n_id ` set close_pair \<and>
   ph_nodes (physics_step 1000 800
      \<lparr>ph_nodes = close_pair, ph_links = [link_a1_f1] @ link_gone # []\<rparr>) =
   ph_nodes (physics_step 1000 800 \<lparr>ph_nodes = close_pair, ph_links = [link_a1_f1] @ []\<rparr>) \<and>
   draw_edges
     (ph_nodes (physics_step 1000 800
        \<lparr>ph_nodes = close_pair, ph_links = [link_a1_f1] @ link_gone # []\<rparr>))
     ([link_a1_f1] @ link_gone # []) =
   draw_edges
     (ph_nodes (physics_step 1000 800 \<lparr>ph_nodes = close_pair, ph_links = [link_a1_f1] @ []\<rparr>))
     ([link_a1_f1] @ [])"
proof -
  have h: "l_source link_gone \<notin> n_id ` set close_pair \<or> l_target link_gone \<notin> n_id ` set close_pair"
    by (simp add: link_gone_def close_pair_def)
  have t: "l_target link_gone \<notin> n_id ` set close_pair"
    by (simp add: link_gone_def close_pair_def)
  from t dangling_link_ignored [OF h, of 1000 800 "[link_a1_f1]" "[]"] show ?thesis
    by blast
qed

section \<open>A node on the centre of the obstacle\<close>

lemma gravity_planet_centre:
  assumes "n_x n = Fin px" "n_y n = Fin py" "0 \<le> r"
  shows "gravity_planet w h \<lparr>p_x = Fin px, p_y = Fin py, p_radius = Fin r\<rparr> n =
           n\<lparr>n_x := NaN, n_y := NaN, n_vx := NaN, n_vy := NaN\<rparr>"
  using assms
  by (simp add: gravity_planet_def distPlanet_def Let_def num_add_NaN_right num_mul_NaN_left)

lemma step_at_centre:
  assumes "i < length (ph_nodes p)"
    and "n_x (ph_nodes p ! i) = p_x (getPlanetConfig (Fin (real cw)) (Fin (real ch)))"
    and "n_y (ph_nodes p ! i) = p_y (getPlanetConfig (Fin (real cw)) (Fin (real ch)))"
  shows "n_vx (ph_nodes (physics_step cw ch p) ! i) = NaN \<and>
         n_vy (ph_nodes (physics_step cw ch p) ! i) = NaN \<and>
         n_x (ph_nodes (physics_step cw ch p) ! i) = NaN \<and>
         n_y (ph_nodes (physics_step cw ch p) ! i) = NaN"
proof -
  obtain px py r where pl:
    "getPlanetConfig (Fin (real cw)) (Fin (real ch)) =
       \<lparr>p_x = Fin px, p_y = Fin py, p_radius = Fin r\<rparr>"
    and r: "0 \<le> r"
    using planet_of_canvas by blast
  let ?m = "springs (ph_links p) (repulsion (ph_nodes p)) ! i"
  from phases_frame_nth [OF assms(1)] assms(2,3) pl
  have "n_x ?m = Fin px" "n_y ?m = Fin py" by simp_all
  from gravity_planet_centre [OF this r]
  show ?thesis by (simp add: physics_step_nth [OF assms(1)] pl)
qed

text \<open>
  Claim C10. The obstacle phase divides the offset from the obstacle centre by the distance
  from it, with no floor on that distance. For a node of the held list whose position is
  the obstacle centre of the canvas, the distance is 0, below the radius plus the buffer,
  the quotient is \<open>0/0\<close>, and one integration step leaves the node with \<open>vx\<close>, \<open>vy\<close>, \<open>x\<close>
  and \<open>y\<close> all NaN, whatever the other nodes and the links are.
\<close>

theorem planet_centre_nan:
  assumes "i < length (ph_nodes p)"
    and "n_x (ph_nodes p ! i) = p_x (getPlanetConfig (Fin (real cw)) (Fin (real ch)))"
    and "n_y (ph_nodes p ! i) = p_y (getPlanetConfig (Fin (real cw)) (Fin (real ch)))"
  shows "n_vx (ph_nodes (physics_step cw ch p) ! i) = NaN \<and>
         n_vy (ph_nodes (physics_step cw ch p) ! i) = NaN \<and>
         n_x (ph_nodes (physics_step cw ch p) ! i) = NaN \<and>
         n_y (ph_nodes (physics_step cw ch p) ! i) = NaN"
  using assms by (rule step_at_centre)

theorem planet_centre_nan_witness:
  "(0::nat) < length (ph_nodes (reconcile draws_half 0 0 initial_physics snapshot_a1_f1)) \<and>
   n_x (ph_nodes (reconcile draws_half 0 0 initial_physics snapshot_a1_f1) ! 0) =
     p_x (getPlanetConfig (Fin (real (0::nat))) (Fin (real (0::nat)))) \<and>
   n_y (ph_nodes (reconcile draws_half 0 0 initial_physics snapshot_a1_f1) ! 0) =
     p_y (getPlanetConfig (Fin (real (0::nat))) (Fin (real (0::nat)))) \<and>
   n_vx (ph_nodes (physics_step 0 0 (reconcile draws_half 0 0 initial_physics snapshot_a1_f1)) ! 0)
     = NaN \<and>
   n_vy (ph_nodes (physics_step 0 0 (reconcile draws_half 0 0 initial_physics snapshot_a1_f1)) ! 0)
     = NaN \<and>
   n_x (ph_nodes (physics_step 0 0 (reconcile draws_half 0 0 initial_physics snapshot_a1_f1)) ! 0)
     = NaN \<and>
   n_y (ph_nodes (physics_step 0 0 (reconcile draws_half 0 0 initial_physics snapshot_a1_f1)) ! 0)
     = NaN"
proof -
  let ?p = "reconcile draws_half 0 0 initial_physics snapshot_a1_f1"
  have h: "(0::nat) < length (ph_nodes ?p)"
    "n_x (ph_nodes ?p ! 0) = p_x (getPlanetConfig (Fin (real (0::nat))) (Fin (real (0::nat))))"
    "n_y (ph_nodes ?p ! 0) = p_y (getPlanetConfig (Fin (real (0::nat))) (Fin (real (0::nat))))"
    by (simp_all add: reconcile_def initial_physics_def snapshot_a1_f1_def draws_half_def
        getPlanetConfig_def)
  from planet_centre_nan [OF h] h show ?thesis by blast
qed

section \<open>One step of two linked nodes at rest\<close>

lemma sq_sum_not_neg [simp]: "\<not> u * u + v * v < (0::real)"
  by (simp add: not_less)

lemma upt_0_2: "[0 ..< 2] = [0, Suc 0]"
  by (simp add: numeral_2_eq_2)

lemma repulsion_two: "length ns = 2 \<Longrightarrow> repulsion ns = repulse_pair 0 (Suc 0) ns"
  by (simp add: repulsion_def upt_0_2 repulse_pair_length numeral_2_eq_2)

lemma repulse_pair_two:
  assumes "n_x a = Fin ax" "n_y a = Fin ay" "n_x b = Fin bx" "n_y b = Fin bz"
  shows "repulse_pair 0 (Suc 0) [a, b] =
     [a\<lparr>n_vx := num_add (n_vx a) (Fin ((ax - bx) / sqrt (clampSq (ax - bx) (ay - bz))
                         * (2000 / clampSq (ax - bx) (ay - bz)))),
        n_vy := num_add (n_vy a) (Fin ((ay - bz) / sqrt (clampSq (ax - bx) (ay - bz))
                         * (2000 / clampSq (ax - bx) (ay - bz))))\<rparr>,
      b\<lparr>n_vx := num_sub (n_vx b) (Fin ((ax - bx) / sqrt (clampSq (ax - bx) (ay - bz))
                         * (2000 / clampSq (ax - bx) (ay - bz)))),
        n_vy := num_sub (n_vy b) (Fin ((ay - bz) / sqrt (clampSq (ax - bx) (ay - bz))
                         * (2000 / clampSq (ax - bx) (ay - bz))))\<rparr>]"
  using assms by (simp add: repulse_pair_def Let_def repulsion_delta_Fin)

lemma spring_delta_Fin:
  "spring_delta (Fin dx) (Fin dy) =
     (Fin (dx / floor1 (sqrt (dx * dx + dy * dy))
             * ((floor1 (sqrt (dx * dx + dy * dy)) - 120) * 0.02)),
      Fin (dy / floor1 (sqrt (dx * dx + dy * dy))
             * ((floor1 (sqrt (dx * dx + dy * dy)) - 120) * 0.02)))"
  by (simp add: spring_delta_def Let_def floor1_def SPRING_LENGTH_def SPRING_K_def)

lemma spring_link_two:
  assumes "n_id a \<noteq> n_id b" "l_source l = n_id a" "l_target l = n_id b"
    and "n_x a = Fin ax" "n_y a = Fin ay" "n_x b = Fin bx" "n_y b = Fin bz"
  shows "spring_link l [a, b] =
     [a\<lparr>n_vx := num_add (n_vx a) (fst (spring_delta (Fin (bx - ax)) (Fin (bz - ay)))),
        n_vy := num_add (n_vy a) (snd (spring_delta (Fin (bx - ax)) (Fin (bz - ay))))\<rparr>,
      b\<lparr>n_vx := num_sub (n_vx b) (fst (spring_delta (Fin (bx - ax)) (Fin (bz - ay)))),
        n_vy := num_sub (n_vy b) (snd (spring_delta (Fin (bx - ax)) (Fin (bz - ay))))\<rparr>]"
  using assms by (simp add: spring_link_def Let_def)

lemma distPlanet_vel [simp]: "distPlanet pl (n\<lparr>n_vx := a, n_vy := b\<rparr>) = distPlanet pl n"
  by (simp add: distPlanet_def)

lemma gravity_planet_miss:
  assumes "\<not> num_lt (distPlanet pl n) (num_add (p_radius pl) (Fin 20))"
    and "n_x n = Fin x" "n_y n = Fin y" "n_vx n = Fin vx" "n_vy n = Fin vy"
  shows "gravity_planet (Fin w) (Fin h) pl n =
     n\<lparr>n_x := Fin (x + (vx + (w * 0.7 - x) * 0.0003) * 0.85),
       n_y := Fin (y + (vy + (h * 0.3 - y) * 0.0003) * 0.85),
       n_vx := Fin ((vx + (w * 0.7 - x) * 0.0003) * 0.85),
       n_vy := Fin ((vy + (h * 0.3 - y) * 0.0003) * 0.85)\<rparr>"
  using assms by (simp add: gravity_planet_def Let_def CENTER_GRAVITY_def DAMPING_def)

lemma node_dist_Fin:
  "n_x a = Fin ax \<Longrightarrow> n_y a = Fin ay \<Longrightarrow> n_x b = Fin bx \<Longrightarrow> n_y b = Fin bz \<Longrightarrow>
   node_dist a b = Fin (sqrt ((bx - ax) * (bx - ax) + (bz - ay) * (bz - ay)))"
  by (simp add: node_dist_def Let_def)

lemma two_node_step:
  assumes ns: "ph_nodes p = [a, b]" and ls: "ph_links p = [l]"
    and ids: "n_id a \<noteq> n_id b" "l_source l = n_id a" "l_target l = n_id b"
    and pos: "n_x a = Fin ax" "n_y a = Fin ay" "n_x b = Fin bx" "n_y b = Fin bz"
    and rest: "n_vx a = Fin 0" "n_vy a = Fin 0" "n_vx b = Fin 0" "n_vy b = Fin 0"
    and clear:
      "\<not> num_lt (distPlanet (getPlanetConfig (Fin (real cw)) (Fin (real ch))) a)
           (num_add (p_radius (getPlanetConfig (Fin (real cw)) (Fin (real ch)))) (Fin 20))"
      "\<not> num_lt (distPlanet (getPlanetConfig (Fin (real cw)) (Fin (real ch))) b)
           (num_add (p_radius (getPlanetConfig (Fin (real cw)) (Fin (real ch)))) (Fin 20))"
    and d: "d = sqrt ((bx - ax) * (bx - ax) + (bz - ay) * (bz - ay))" "0 < d"
  shows "n_x (ph_nodes (physics_step cw ch p) ! 0) =
           Fin (ax + ((ax - bx) / d * (2000 / (d * d)) + (bx - ax) / d * ((d - 120) * 0.02)
                      + (real cw * 0.7 - ax) * 0.0003) * 0.85)"
    and "n_x (ph_nodes (physics_step cw ch p) ! 1) =
           Fin (bx + (- ((ax - bx) / d * (2000 / (d * d))) - (bx - ax) / d * ((d - 120) * 0.02)
                      + (real cw * 0.7 - bx) * 0.0003) * 0.85)"
    and "n_y (ph_nodes (physics_step cw ch p) ! 0) =
           Fin (ay + ((ay - bz) / d * (2000 / (d * d)) + (bz - ay) / d * ((d - 120) * 0.02)
                      + (real ch * 0.3 - ay) * 0.0003) * 0.85)"
    and "n_y (ph_nodes (physics_step cw ch p) ! 1) =
           Fin (bz + (- ((ay - bz) / d * (2000 / (d * d))) - (bz - ay) / d * ((d - 120) * 0.02)
                      + (real ch * 0.3 - bz) * 0.0003) * 0.85)"
proof -
  let ?pl = "getPlanetConfig (Fin (real cw)) (Fin (real ch))"
  let ?S = "(bx - ax) * (bx - ax) + (bz - ay) * (bz - ay)"
  have dS: "sqrt ?S = d" by (simp add: d(1))
  have S: "?S = d * d" using d by simp
  have S': "(ax - bx) * (ax - bx) + (ay - bz) * (ay - bz) = d * d"
    using S by (simp add: algebra_simps)
  have dd: "d * d \<noteq> 0" using d(2) by simp
  have cl: "clampSq (ax - bx) (ay - bz) = d * d"
    unfolding clampSq_def S' using dd by simp
  have sq: "\<bar>d\<bar> = d" using d(2) by simp
  have fl: "floor1 (sqrt ?S) = d" unfolding dS using d(2) by (simp add: floor1_def)
  define rx where "rx = (ax - bx) / d * (2000 / (d * d))"
  define ry where "ry = (ay - bz) / d * (2000 / (d * d))"
  define sx where "sx = (bx - ax) / d * ((d - 120) * 0.02)"
  define sy where "sy = (bz - ay) / d * ((d - 120) * 0.02)"
  define a1 where "a1 = a\<lparr>n_vx := Fin rx, n_vy := Fin ry\<rparr>"
  define b1 where "b1 = b\<lparr>n_vx := Fin (- rx), n_vy := Fin (- ry)\<rparr>"
  define a2 where "a2 = a1\<lparr>n_vx := Fin (rx + sx), n_vy := Fin (ry + sy)\<rparr>"
  define b2 where "b2 = b1\<lparr>n_vx := Fin (- rx - sx), n_vy := Fin (- ry - sy)\<rparr>"
  have rep: "repulsion [a, b] = [a1, b1]"
    by (simp add: repulsion_two repulse_pair_two [OF pos] cl sq rest a1_def b1_def rx_def ry_def)
  have sd: "spring_delta (Fin (bx - ax)) (Fin (bz - ay)) = (Fin sx, Fin sy)"
    unfolding spring_delta_Fin fl by (simp add: sx_def sy_def)
  have "spring_link l [a1, b1] = [a2, b2]"
    by (subst spring_link_two [where ax = ax and ay = ay and bx = bx and bz = bz])
       (simp_all add: a1_def b1_def a2_def b2_def ids pos sd)
  then have spr: "springs [l] (repulsion [a, b]) = [a2, b2]"
    by (simp add: springs_def rep)
  have step: "ph_nodes (physics_step cw ch p) =
      [gravity_planet (Fin (real cw)) (Fin (real ch)) ?pl a2,
       gravity_planet (Fin (real cw)) (Fin (real ch)) ?pl b2]"
    by (simp add: physics_step_def Let_def ns ls spr)
  have ca: "\<not> num_lt (distPlanet ?pl a2) (num_add (p_radius ?pl) (Fin 20))"
    using clear(1) by (simp add: a1_def a2_def)
  have cb: "\<not> num_lt (distPlanet ?pl b2) (num_add (p_radius ?pl) (Fin 20))"
    using clear(2) by (simp add: b1_def b2_def)
  have fa: "n_x a2 = Fin ax" "n_y a2 = Fin ay" "n_vx a2 = Fin (rx + sx)" "n_vy a2 = Fin (ry + sy)"
    by (simp_all add: a2_def a1_def pos)
  have fb: "n_x b2 = Fin bx" "n_y b2 = Fin bz" "n_vx b2 = Fin (- rx - sx)" "n_vy b2 = Fin (- ry - sy)"
    by (simp_all add: b2_def b1_def pos)
  note ga = gravity_planet_miss [OF ca fa, of "real cw" "real ch"]
  note gb = gravity_planet_miss [OF cb fb, of "real cw" "real ch"]
  show "n_x (ph_nodes (physics_step cw ch p) ! 0) =
           Fin (ax + ((ax - bx) / d * (2000 / (d * d)) + (bx - ax) / d * ((d - 120) * 0.02)
                      + (real cw * 0.7 - ax) * 0.0003) * 0.85)"
    by (simp add: step ga rx_def sx_def)
  show "n_x (ph_nodes (physics_step cw ch p) ! 1) =
           Fin (bx + (- ((ax - bx) / d * (2000 / (d * d))) - (bx - ax) / d * ((d - 120) * 0.02)
                      + (real cw * 0.7 - bx) * 0.0003) * 0.85)"
    by (simp add: step gb rx_def sx_def)
  show "n_y (ph_nodes (physics_step cw ch p) ! 0) =
           Fin (ay + ((ay - bz) / d * (2000 / (d * d)) + (bz - ay) / d * ((d - 120) * 0.02)
                      + (real ch * 0.3 - ay) * 0.0003) * 0.85)"
    by (simp add: step ga ry_def sy_def)
  show "n_y (ph_nodes (physics_step cw ch p) ! 1) =
           Fin (bz + (- ((ay - bz) / d * (2000 / (d * d))) - (bz - ay) / d * ((d - 120) * 0.02)
                      + (real ch * 0.3 - bz) * 0.0003) * 0.85)"
    by (simp add: step gb ry_def sy_def)
qed

lemma scaled_dist:
  fixes u v k :: real
  shows "sqrt ((u * k) * (u * k) + (v * k) * (v * k)) = \<bar>k\<bar> * sqrt (u * u + v * v)"
proof -
  have "(u * k) * (u * k) + (v * k) * (v * k) = (k * k) * (u * u + v * v)"
    by (simp add: algebra_simps)
  then show ?thesis by (simp add: real_sqrt_mult)
qed

lemma pull_factor_pos:
  fixes d :: real
  assumes "0 < d"
  shows "0 < 1 + 0.85 * (4000 / (d * d * d) - 0.04 * (d - 120) / d - 0.0003)"
proof -
  define A where "A = 4000 / (d * d * d)"
  define B where "B = 0.04 * (d - 120) / d"
  have A: "0 < A" unfolding A_def using assms by simp
  have "0.04 * (d - 120) < 0.04 * d" by simp
  then have "0.04 * (d - 120) / d < 0.04 * d / d"
    using assms by (rule divide_strict_right_mono)
  then have B: "B < 0.04" unfolding B_def using assms by simp
  from A B have "0 < 1 + 0.85 * (A - B - 0.0003)" by (simp add: algebra_simps)
  then show ?thesis unfolding A_def B_def .
qed

lemma pull_factor_less:
  fixes d :: real
  assumes "0 < d"
  shows "1 + 0.85 * (4000 / (d * d * d) - 0.04 * (d - 120) / d - 0.0003) < 1
         \<longleftrightarrow> 4000 / (d * d) < 0.04 * (d - 120) + 0.0003 * d"
proof -
  define E where "E = 4000 / (d * d * d) - 0.04 * (d - 120) / d - 0.0003"
  define X where "X = 4000 / (d * d) - (0.04 * (d - 120) + 0.0003 * d)"
  have "E = X / d"
    unfolding E_def X_def using assms by (simp add: field_simps)
  moreover have "(X / d < 0) = (X < 0)"
    using assms by (simp add: divide_less_0_iff)
  ultimately have "(E < 0) = (X < 0)" by simp
  moreover have "(1 + 0.85 * E < 1) = (E < 0)" by simp
  moreover have "(X < 0) = (4000 / (d * d) < 0.04 * (d - 120) + 0.0003 * d)"
    unfolding X_def by (simp add: algebra_simps)
  ultimately show ?thesis unfolding E_def by simp
qed

lemma far_enough:
  fixes d :: real
  assumes "126 \<le> d"
  shows "4000 / (d * d) < 0.04 * (d - 120) + 0.0003 * d"
proof -
  from assms have d0: "0 < d" by simp
  from assms have "126 * 126 \<le> d * d" by (intro mult_mono) simp_all
  then have "4000 / (d * d) \<le> 4000 / (126 * 126)"
    by (intro divide_left_mono) simp_all
  also have "\<dots> < 0.04 * (126 - 120) + 0.0003 * (126::real)" by simp
  also have "\<dots> \<le> 0.04 * (d - 120) + 0.0003 * d" using assms by (simp add: algebra_simps)
  finally show ?thesis .
qed

lemma linked_pair_dist:
  assumes ns: "ph_nodes p = [a, b]" and ls: "ph_links p = [l]"
    and ids: "n_id a \<noteq> n_id b" "l_source l = n_id a" "l_target l = n_id b"
    and pos: "n_x a = Fin ax" "n_y a = Fin ay" "n_x b = Fin bx" "n_y b = Fin bz"
    and rest: "n_vx a = Fin 0" "n_vy a = Fin 0" "n_vx b = Fin 0" "n_vy b = Fin 0"
    and clear:
      "\<not> num_lt (distPlanet (getPlanetConfig (Fin (real cw)) (Fin (real ch))) a)
           (num_add (p_radius (getPlanetConfig (Fin (real cw)) (Fin (real ch)))) (Fin 20))"
      "\<not> num_lt (distPlanet (getPlanetConfig (Fin (real cw)) (Fin (real ch))) b)
           (num_add (p_radius (getPlanetConfig (Fin (real cw)) (Fin (real ch)))) (Fin 20))"
    and d: "d = sqrt ((bx - ax) * (bx - ax) + (bz - ay) * (bz - ay))" "0 < d"
  shows "node_dist a b = Fin d"
    and "node_dist (ph_nodes (physics_step cw ch p) ! 0) (ph_nodes (physics_step cw ch p) ! 1) =
           Fin ((1 + 0.85 * (4000 / (d * d * d) - 0.04 * (d - 120) / d - 0.0003)) * d)"
proof -
  define k where "k = 1 + 0.85 * (4000 / (d * d * d) - 0.04 * (d - 120) / d - 0.0003)"
  have kpos: "0 < k" unfolding k_def by (rule pull_factor_pos [OF d(2)])
  show before: "node_dist a b = Fin d"
    by (simp add: node_dist_Fin [OF pos] d(1))
  note st = two_node_step [OF ns ls ids pos rest clear d]
  have dx: "(bx + (- ((ax - bx) / d * (2000 / (d * d))) - (bx - ax) / d * ((d - 120) * 0.02)
                      + (real cw * 0.7 - bx) * 0.0003) * 0.85)
          - (ax + ((ax - bx) / d * (2000 / (d * d)) + (bx - ax) / d * ((d - 120) * 0.02)
                      + (real cw * 0.7 - ax) * 0.0003) * 0.85) = (bx - ax) * k"
    using d(2) unfolding k_def by (simp add: field_simps)
  have dy: "(bz + (- ((ay - bz) / d * (2000 / (d * d))) - (bz - ay) / d * ((d - 120) * 0.02)
                      + (real ch * 0.3 - bz) * 0.0003) * 0.85)
          - (ay + ((ay - bz) / d * (2000 / (d * d)) + (bz - ay) / d * ((d - 120) * 0.02)
                      + (real ch * 0.3 - ay) * 0.0003) * 0.85) = (bz - ay) * k"
    using d(2) unfolding k_def by (simp add: field_simps)
  have "node_dist (ph_nodes (physics_step cw ch p) ! 0) (ph_nodes (physics_step cw ch p) ! 1) =
          Fin (sqrt (((bx - ax) * k) * ((bx - ax) * k) + ((bz - ay) * k) * ((bz - ay) * k)))"
    unfolding node_dist_Fin [OF st(1) st(3) st(2) st(4)] dx dy ..
  also have "\<dots> = Fin (k * d)"
    unfolding scaled_dist using kpos by (simp add: d(1))
  finally show "node_dist (ph_nodes (physics_step cw ch p) ! 0) (ph_nodes (physics_step cw ch p) ! 1) =
           Fin ((1 + 0.85 * (4000 / (d * d * d) - 0.04 * (d - 120) / d - 0.0003)) * d)"
    by (simp add: k_def)
qed

lemma not_sqrt_less: "0 \<le> b \<Longrightarrow> b * b \<le> a \<Longrightarrow> \<not> sqrt a < b"
proof -
  assume b: "0 \<le> b" and le: "b * b \<le> a"
  from le have "sqrt (b * b) \<le> sqrt a" by (rule real_sqrt_le_mono)
  with b show ?thesis by simp
qed

lemma sqrt_14641: "sqrt 14641 = 121"
  by (rule real_sqrt_unique) simp_all

lemma sqrt_40000: "sqrt 40000 = 200"
  by (rule real_sqrt_unique) simp_all

lemma planet_1000: "getPlanetConfig (Fin 1000) (Fin 1000) =
    \<lparr>p_x = Fin (- 100), p_y = Fin 1100, p_radius = Fin 800\<rparr>"
  by (simp add: getPlanetConfig_Fin)

lemma sqrt_15876: "sqrt 15876 = 126"
  by (rule real_sqrt_unique) simp_all
lemma sqrt_28224: "sqrt 28224 = 168"
  by (rule real_sqrt_unique) simp_all
lemma sqrt_90000: "sqrt 90000 = 300"
  by (rule real_sqrt_unique) simp_all

lemma less_sqrt_iff: "0 \<le> a \<Longrightarrow> (a < sqrt b) = (a * a < b)"
proof -
  assume a: "0 \<le> a"
  have "(sqrt (a * a) < sqrt b) = (a * a < b)" by (rule real_sqrt_less_iff)
  moreover have "sqrt (a * a) = a" using a by simp
  ultimately show ?thesis by (simp only:)
qed

lemma drifting_step:
  "ph_nodes (physics_step 1000 1000 \<lparr>ph_nodes = drifting_pair, ph_links = [link_a1_f1]\<rparr>) =
     [\<lparr>n_id = ''a1'', n_type = ''agent'', n_x = Fin (3179221231 / 7938000),
       n_y = Fin 300, n_vx = Fin (4021231 / 7938000), n_vy = Fin 0\<rparr>,
      \<lparr>n_id = ''f1'', n_type = ''form'', n_x = Fin (108791699047 / 396900000),
       n_y = Fin 300, n_vx = Fin (41099047 / 396900000), n_vy = Fin 0\<rparr>]"
  by (simp add: physics_step_def drifting_pair_def link_a1_f1_def repulsion_two springs_def
      repulse_pair_def repulsion_delta_Fin clampSq_def sqrt_15876 spring_link_def Let_def
      spring_delta_Fin floor1_def gravity_planet_def distPlanet_def getPlanetConfig_Fin
      CENTER_GRAVITY_def DAMPING_def not_sqrt_less)


lemma zone_step:
  "ph_nodes (physics_step 400 800 \<lparr>ph_nodes = zone_pair, ph_links = [link_a1_f1]\<rparr>) =
     [\<lparr>n_id = ''a1'', n_type = ''agent'', n_x = Fin (- (462749603 / 2756250)),
       n_y = Fin (4195643 / 12500), n_vx = Fin (- (10724603 / 2756250)),
       n_vy = Fin (- (204357 / 12500))\<rparr>,
      \<lparr>n_id = ''f1'', n_type = ''form'', n_x = Fin (44511301 / 5512500),
       n_y = Fin (4195643 / 12500), n_vx = Fin (22461301 / 5512500),
       n_vy = Fin (- (204357 / 12500))\<rparr>]"
  by (simp add: physics_step_def zone_pair_def link_a1_f1_def repulsion_two springs_def
      repulse_pair_def repulsion_delta_Fin clampSq_def sqrt_28224 sqrt_90000 spring_link_def Let_def
      spring_delta_Fin floor1_def gravity_planet_def distPlanet_def getPlanetConfig_Fin
      CENTER_GRAVITY_def DAMPING_def not_sqrt_less)

lemma pull_factor_greater:
  fixes d :: real
  assumes "0 < d"
  shows "1 < 1 + 0.85 * (4000 / (d * d * d) - 0.04 * (d - 120) / d - 0.0003)
         \<longleftrightarrow> 0.04 * (d - 120) + 0.0003 * d < 4000 / (d * d)"
proof -
  define E where "E = 4000 / (d * d * d) - 0.04 * (d - 120) / d - 0.0003"
  define X where "X = 4000 / (d * d) - (0.04 * (d - 120) + 0.0003 * d)"
  have "E = X / d"
    unfolding E_def X_def using assms by (simp add: field_simps)
  moreover have "(0 < X / d) = (0 < X)"
    using assms by (simp add: zero_less_divide_iff)
  ultimately have "(0 < E) = (0 < X)" by simp
  moreover have "(1 < 1 + 0.85 * E) = (0 < E)" by simp
  moreover have "(0 < X) = (0.04 * (d - 120) + 0.0003 * d < 4000 / (d * d))"
    unfolding X_def by (simp add: algebra_simps)
  ultimately show ?thesis unfolding E_def by simp
qed

lemma near_rest:
  fixes d :: real
  assumes "120 < d" "d \<le> 125"
  shows "0.04 * (d - 120) + 0.0003 * d < 4000 / (d * d)"
proof -
  from assms have d0: "0 < d" by simp
  from assms d0 have "d * d \<le> 125 * 125" by (intro mult_mono) simp_all
  moreover from d0 have "0 < d * d" by simp
  ultimately have "4000 / (125 * 125) \<le> 4000 / (d * d)"
    by (intro divide_left_mono) simp_all
  moreover have "0.04 * (125 - 120) + 0.0003 * (125::real) < 4000 / (125 * 125)" by simp
  moreover have "0.04 * (d - 120) + 0.0003 * d \<le> 0.04 * (125 - 120) + 0.0003 * (125::real)"
    using assms by (simp add: algebra_simps)
  ultimately show ?thesis by linarith
qed

lemma rest_121_facts:
  "ph_nodes \<lparr>ph_nodes = rest_pair_121, ph_links = [link_a1_f1]\<rparr> = [rest_pair_121 ! 0, rest_pair_121 ! 1]"
  "n_id (rest_pair_121 ! 0) \<noteq> n_id (rest_pair_121 ! 1)"
  "l_source link_a1_f1 = n_id (rest_pair_121 ! 0)"
  "l_target link_a1_f1 = n_id (rest_pair_121 ! 1)"
  "n_x (rest_pair_121 ! 0) = Fin 700" "n_y (rest_pair_121 ! 0) = Fin 300"
  "n_x (rest_pair_121 ! 1) = Fin 821" "n_y (rest_pair_121 ! 1) = Fin 300"
  "n_vx (rest_pair_121 ! 0) = Fin 0" "n_vy (rest_pair_121 ! 0) = Fin 0"
  "n_vx (rest_pair_121 ! 1) = Fin 0" "n_vy (rest_pair_121 ! 1) = Fin 0"
  "\<not> num_lt (distPlanet (getPlanetConfig (Fin (real (1000::nat))) (Fin (real (1000::nat)))) (rest_pair_121 ! 0))
       (num_add (p_radius (getPlanetConfig (Fin (real (1000::nat))) (Fin (real (1000::nat))))) (Fin 20))"
  "\<not> num_lt (distPlanet (getPlanetConfig (Fin (real (1000::nat))) (Fin (real (1000::nat)))) (rest_pair_121 ! 1))
       (num_add (p_radius (getPlanetConfig (Fin (real (1000::nat))) (Fin (real (1000::nat))))) (Fin 20))"
  by (simp_all add: rest_pair_121_def link_a1_f1_def planet_1000 distPlanet_def not_sqrt_less)

lemma rest_200_facts:
  "ph_nodes \<lparr>ph_nodes = rest_pair_200, ph_links = [link_a1_f1]\<rparr> = [rest_pair_200 ! 0, rest_pair_200 ! 1]"
  "n_id (rest_pair_200 ! 0) \<noteq> n_id (rest_pair_200 ! 1)"
  "l_source link_a1_f1 = n_id (rest_pair_200 ! 0)"
  "l_target link_a1_f1 = n_id (rest_pair_200 ! 1)"
  "n_x (rest_pair_200 ! 0) = Fin 700" "n_y (rest_pair_200 ! 0) = Fin 300"
  "n_x (rest_pair_200 ! 1) = Fin 900" "n_y (rest_pair_200 ! 1) = Fin 300"
  "n_vx (rest_pair_200 ! 0) = Fin 0" "n_vy (rest_pair_200 ! 0) = Fin 0"
  "n_vx (rest_pair_200 ! 1) = Fin 0" "n_vy (rest_pair_200 ! 1) = Fin 0"
  "\<not> num_lt (distPlanet (getPlanetConfig (Fin (real (1000::nat))) (Fin (real (1000::nat)))) (rest_pair_200 ! 0))
       (num_add (p_radius (getPlanetConfig (Fin (real (1000::nat))) (Fin (real (1000::nat))))) (Fin 20))"
  "\<not> num_lt (distPlanet (getPlanetConfig (Fin (real (1000::nat))) (Fin (real (1000::nat)))) (rest_pair_200 ! 1))
       (num_add (p_radius (getPlanetConfig (Fin (real (1000::nat))) (Fin (real (1000::nat))))) (Fin 20))"
  by (simp_all add: rest_pair_200_def link_a1_f1_def planet_1000 distPlanet_def not_sqrt_less)

lemma in_range: "\<bar>700::real\<bar> \<le> 1000000" "\<bar>300::real\<bar> \<le> 1000000"
  "\<bar>821::real\<bar> \<le> 1000000" "\<bar>900::real\<bar> \<le> 1000000"
  by simp_all

text \<open>
  Claim C8, as amended. Two held nodes \<open>a\<close> and \<open>b\<close> joined by the one link from \<open>a\<close> to
  \<open>b\<close>, both at rest, neither within the radius plus buffer of the obstacle, with
  coordinates of magnitude at most \<open>10\<^sup>6\<close> (so that no square overflows and rounding stays
  far below the change of the distance), at a distance
  \<open>d > 120\<close>: one integration step strictly decreases their distance when \<open>d \<ge> 126\<close>, and
  strictly increases it when \<open>d \<le> 125\<close>, where the repulsion outweighs spring and gravity.
\<close>

theorem linked_pair_step:
  assumes ns: "ph_nodes p = [a, b]" and ls: "ph_links p = [l]"
    and ids: "n_id a \<noteq> n_id b" "l_source l = n_id a" "l_target l = n_id b"
    and pos: "n_x a = Fin ax" "n_y a = Fin ay" "n_x b = Fin bx" "n_y b = Fin bz"
    and range: "\<bar>ax\<bar> \<le> 1000000" "\<bar>ay\<bar> \<le> 1000000" "\<bar>bx\<bar> \<le> 1000000" "\<bar>bz\<bar> \<le> 1000000"
    and rest: "n_vx a = Fin 0" "n_vy a = Fin 0" "n_vx b = Fin 0" "n_vy b = Fin 0"
    and clear:
      "\<not> num_lt (distPlanet (getPlanetConfig (Fin (real cw)) (Fin (real ch))) a)
           (num_add (p_radius (getPlanetConfig (Fin (real cw)) (Fin (real ch)))) (Fin 20))"
      "\<not> num_lt (distPlanet (getPlanetConfig (Fin (real cw)) (Fin (real ch))) b)
           (num_add (p_radius (getPlanetConfig (Fin (real cw)) (Fin (real ch)))) (Fin 20))"
    and d: "d = sqrt ((bx - ax) * (bx - ax) + (bz - ay) * (bz - ay))" "120 < d"
  shows "node_dist a b = Fin d \<and>
         (126 \<le> d \<longrightarrow>
            num_lt (node_dist (ph_nodes (physics_step cw ch p) ! 0)
                              (ph_nodes (physics_step cw ch p) ! 1))
                   (node_dist a b)) \<and>
         (d \<le> 125 \<longrightarrow>
            num_lt (node_dist a b)
                   (node_dist (ph_nodes (physics_step cw ch p) ! 0)
                              (ph_nodes (physics_step cw ch p) ! 1)))"
proof -
  from d(2) have d0: "0 < d" by simp
  define k where "k = 1 + 0.85 * (4000 / (d * d * d) - 0.04 * (d - 120) / d - 0.0003)"
  note dist = linked_pair_dist [OF ns ls ids pos rest clear d(1) d0]
  have less: "num_lt (node_dist (ph_nodes (physics_step cw ch p) ! 0)
                          (ph_nodes (physics_step cw ch p) ! 1)) (node_dist a b)"
    if "126 \<le> d"
  proof -
    from far_enough [OF that] have "k < 1"
      unfolding k_def by (simp only: pull_factor_less [OF d0])
    then have "k * d < d" using d0 by simp
    then show ?thesis unfolding dist k_def by simp
  qed
  have more: "num_lt (node_dist a b)
                 (node_dist (ph_nodes (physics_step cw ch p) ! 0)
                            (ph_nodes (physics_step cw ch p) ! 1))"
    if "d \<le> 125"
  proof -
    from near_rest [OF d(2) that] have "1 < k"
      unfolding k_def by (simp only: pull_factor_greater [OF d0])
    then have "d < k * d" using d0 by simp
    then show ?thesis unfolding dist k_def by simp
  qed
  from dist(1) less more show ?thesis by blast
qed

theorem linked_pair_step_witness:
  "n_id (rest_pair_200 ! 0) \<noteq> n_id (rest_pair_200 ! 1) \<and>
   l_source link_a1_f1 = n_id (rest_pair_200 ! 0) \<and>
   l_target link_a1_f1 = n_id (rest_pair_200 ! 1) \<and>
   \<not> num_lt (distPlanet (getPlanetConfig (Fin (real (1000::nat))) (Fin (real (1000::nat)))) (rest_pair_200 ! 0))
         (num_add (p_radius (getPlanetConfig (Fin (real (1000::nat))) (Fin (real (1000::nat))))) (Fin 20)) \<and>
   \<not> num_lt (distPlanet (getPlanetConfig (Fin (real (1000::nat))) (Fin (real (1000::nat)))) (rest_pair_200 ! 1))
         (num_add (p_radius (getPlanetConfig (Fin (real (1000::nat))) (Fin (real (1000::nat))))) (Fin 20)) \<and>
   node_dist (rest_pair_200 ! 0) (rest_pair_200 ! 1) = Fin 200 \<and>
   num_lt
       (node_dist
          (ph_nodes (physics_step 1000 1000
             \<lparr>ph_nodes = rest_pair_200, ph_links = [link_a1_f1]\<rparr>) ! 0)
          (ph_nodes (physics_step 1000 1000
             \<lparr>ph_nodes = rest_pair_200, ph_links = [link_a1_f1]\<rparr>) ! 1))
       (node_dist (rest_pair_200 ! 0) (rest_pair_200 ! 1)) \<and>
   node_dist (rest_pair_121 ! 0) (rest_pair_121 ! 1) = Fin 121 \<and>
   num_lt
       (node_dist (rest_pair_121 ! 0) (rest_pair_121 ! 1))
       (node_dist
          (ph_nodes (physics_step 1000 1000
             \<lparr>ph_nodes = rest_pair_121, ph_links = [link_a1_f1]\<rparr>) ! 0)
          (ph_nodes (physics_step 1000 1000
             \<lparr>ph_nodes = rest_pair_121, ph_links = [link_a1_f1]\<rparr>) ! 1))"
proof -
  let ?p = "\<lparr>ph_nodes = rest_pair_200, ph_links = [link_a1_f1]\<rparr>"
  let ?q = "\<lparr>ph_nodes = rest_pair_121, ph_links = [link_a1_f1]\<rparr>"
  have ls: "ph_links ?p = [link_a1_f1]" "ph_links ?q = [link_a1_f1]" by simp_all
  have d200: "(200::real) = sqrt ((900 - 700) * (900 - 700) + (300 - 300) * (300 - 300))"
    "(120::real) < 200"
    by (simp_all add: sqrt_40000)
  have d121: "(121::real) = sqrt ((821 - 700) * (821 - 700) + (300 - 300) * (300 - 300))"
    "(120::real) < 121"
    by (simp_all add: sqrt_14641)
  note r200 = linked_pair_step [OF rest_200_facts(1) ls(1) rest_200_facts(2-8)
      in_range(1,2,4,2) rest_200_facts(9-14) d200]
  note r121 = linked_pair_step [OF rest_121_facts(1) ls(2) rest_121_facts(2-8)
      in_range(1,2,3,2) rest_121_facts(9-14) d121]
  from r200 have a: "node_dist (rest_pair_200 ! 0) (rest_pair_200 ! 1) = Fin 200" by blast
  from r200 have "(126::real) \<le> 200 \<longrightarrow> num_lt
       (node_dist (ph_nodes (physics_step 1000 1000 ?p) ! 0) (ph_nodes (physics_step 1000 1000 ?p) ! 1))
       (node_dist (rest_pair_200 ! 0) (rest_pair_200 ! 1))" by blast
  then have b: "num_lt
       (node_dist (ph_nodes (physics_step 1000 1000 ?p) ! 0) (ph_nodes (physics_step 1000 1000 ?p) ! 1))
       (node_dist (rest_pair_200 ! 0) (rest_pair_200 ! 1))" by simp
  from r121 have c: "node_dist (rest_pair_121 ! 0) (rest_pair_121 ! 1) = Fin 121" by blast
  from r121 have "(121::real) \<le> 125 \<longrightarrow> num_lt
       (node_dist (rest_pair_121 ! 0) (rest_pair_121 ! 1))
       (node_dist (ph_nodes (physics_step 1000 1000 ?q) ! 0) (ph_nodes (physics_step 1000 1000 ?q) ! 1))"
    by blast
  then have e: "num_lt
       (node_dist (rest_pair_121 ! 0) (rest_pair_121 ! 1))
       (node_dist (ph_nodes (physics_step 1000 1000 ?q) ! 0) (ph_nodes (physics_step 1000 1000 ?q) ! 1))"
    by simp
  from a b c e rest_200_facts(2-4,13,14) show ?thesis by blast
qed

text \<open>Three instances of the end-to-end scenario in which the distance exceeds 120 and
  grows. At rest and clear of the obstacle, 121 apart. Clear of the obstacle and 126 apart,
  the first node drifting away at half a pixel per frame. At rest and 168 apart, both
  nodes inside the buffer of the obstacle, which pushes them apart.\<close>

theorem linked_pair_step_counterexample:
  "reconcile draws_821 1000 1000 held_a1_rest snapshot_a1_f1 =
     \<lparr>ph_nodes = rest_pair_121, ph_links = [link_a1_f1]\<rparr> \<and>
   num_lt SPRING_LENGTH (node_dist (rest_pair_121 ! 0) (rest_pair_121 ! 1)) \<and>
   \<not> num_lt
       (node_dist
          (ph_nodes (physics_step 1000 1000
             \<lparr>ph_nodes = rest_pair_121, ph_links = [link_a1_f1]\<rparr>) ! 0)
          (ph_nodes (physics_step 1000 1000
             \<lparr>ph_nodes = rest_pair_121, ph_links = [link_a1_f1]\<rparr>) ! 1))
       (node_dist (rest_pair_121 ! 0) (rest_pair_121 ! 1)) \<and>
   num_lt
       (node_dist (rest_pair_121 ! 0) (rest_pair_121 ! 1))
       (node_dist
          (ph_nodes (physics_step 1000 1000
             \<lparr>ph_nodes = rest_pair_121, ph_links = [link_a1_f1]\<rparr>) ! 0)
          (ph_nodes (physics_step 1000 1000
             \<lparr>ph_nodes = rest_pair_121, ph_links = [link_a1_f1]\<rparr>) ! 1)) \<and>
   reconcile draws_274 1000 1000 held_a1_drift snapshot_a1_f1 =
     \<lparr>ph_nodes = drifting_pair, ph_links = [link_a1_f1]\<rparr> \<and>
   node_dist (drifting_pair ! 0) (drifting_pair ! 1) = Fin 126 \<and>
   \<not> num_lt (distPlanet (getPlanetConfig (Fin 1000) (Fin 1000)) (drifting_pair ! 0))
         (num_add (p_radius (getPlanetConfig (Fin 1000) (Fin 1000))) (Fin 20)) \<and>
   \<not> num_lt (distPlanet (getPlanetConfig (Fin 1000) (Fin 1000)) (drifting_pair ! 1))
         (num_add (p_radius (getPlanetConfig (Fin 1000) (Fin 1000))) (Fin 20)) \<and>
   \<not> num_lt
       (node_dist
          (ph_nodes (physics_step 1000 1000
             \<lparr>ph_nodes = drifting_pair, ph_links = [link_a1_f1]\<rparr>) ! 0)
          (ph_nodes (physics_step 1000 1000
             \<lparr>ph_nodes = drifting_pair, ph_links = [link_a1_f1]\<rparr>) ! 1))
       (node_dist (drifting_pair ! 0) (drifting_pair ! 1)) \<and>
   num_lt
       (node_dist (drifting_pair ! 0) (drifting_pair ! 1))
       (node_dist
          (ph_nodes (physics_step 1000 1000
             \<lparr>ph_nodes = drifting_pair, ph_links = [link_a1_f1]\<rparr>) ! 0)
          (ph_nodes (physics_step 1000 1000
             \<lparr>ph_nodes = drifting_pair, ph_links = [link_a1_f1]\<rparr>) ! 1)) \<and>
   reconcile draws_4 400 800 held_a1_left snapshot_a1_f1 =
     \<lparr>ph_nodes = zone_pair, ph_links = [link_a1_f1]\<rparr> \<and>
   node_dist (zone_pair ! 0) (zone_pair ! 1) = Fin 168 \<and>
   n_vx (zone_pair ! 0) = Fin 0 \<and> n_vy (zone_pair ! 0) = Fin 0 \<and>
   n_vx (zone_pair ! 1) = Fin 0 \<and> n_vy (zone_pair ! 1) = Fin 0 \<and>
   \<not> num_lt
       (node_dist
          (ph_nodes (physics_step 400 800
             \<lparr>ph_nodes = zone_pair, ph_links = [link_a1_f1]\<rparr>) ! 0)
          (ph_nodes (physics_step 400 800
             \<lparr>ph_nodes = zone_pair, ph_links = [link_a1_f1]\<rparr>) ! 1))
       (node_dist (zone_pair ! 0) (zone_pair ! 1)) \<and>
   num_lt
       (node_dist (zone_pair ! 0) (zone_pair ! 1))
       (node_dist
          (ph_nodes (physics_step 400 800
             \<lparr>ph_nodes = zone_pair, ph_links = [link_a1_f1]\<rparr>) ! 0)
          (ph_nodes (physics_step 400 800
             \<lparr>ph_nodes = zone_pair, ph_links = [link_a1_f1]\<rparr>) ! 1)) \<and>
   num_lt (distPlanet (getPlanetConfig (Fin 400) (Fin 800)) (zone_pair ! 0))
       (num_add (p_radius (getPlanetConfig (Fin 400) (Fin 800))) (Fin 20)) \<and>
   num_lt (distPlanet (getPlanetConfig (Fin 400) (Fin 800)) (zone_pair ! 1))
       (num_add (p_radius (getPlanetConfig (Fin 400) (Fin 800))) (Fin 20))"
proof -
  let ?p = "\<lparr>ph_nodes = rest_pair_121, ph_links = [link_a1_f1]\<rparr>"
  have ls: "ph_links ?p = [link_a1_f1]" by simp
  have d: "(121::real) = sqrt ((821 - 700) * (821 - 700) + (300 - 300) * (300 - 300))" "(0::real) < 121"
    by (simp_all add: sqrt_14641)
  note dist = linked_pair_dist [OF rest_121_facts(1) ls rest_121_facts(2-14) d]
  have scenario: "reconcile draws_821 1000 1000 held_a1_rest snapshot_a1_f1 = ?p"
    by (simp add: reconcile_def held_a1_rest_def snapshot_a1_f1_def draws_821_def
        rest_pair_121_def link_a1_f1_def)
  have one: "num_lt SPRING_LENGTH (node_dist (rest_pair_121 ! 0) (rest_pair_121 ! 1)) \<and>
     \<not> num_lt
       (node_dist (ph_nodes (physics_step 1000 1000 ?p) ! 0) (ph_nodes (physics_step 1000 1000 ?p) ! 1))
       (node_dist (rest_pair_121 ! 0) (rest_pair_121 ! 1))"
    unfolding dist by (simp add: SPRING_LENGTH_def)
  have one_up: "num_lt
       (node_dist (rest_pair_121 ! 0) (rest_pair_121 ! 1))
       (node_dist (ph_nodes (physics_step 1000 1000 ?p) ! 0) (ph_nodes (physics_step 1000 1000 ?p) ! 1))"
    unfolding dist by simp
  have two: "reconcile draws_274 1000 1000 held_a1_drift snapshot_a1_f1 =
       \<lparr>ph_nodes = drifting_pair, ph_links = [link_a1_f1]\<rparr>"
    by (simp add: reconcile_def held_a1_drift_def snapshot_a1_f1_def draws_274_def
        drifting_pair_def link_a1_f1_def)
  have two_d: "node_dist (drifting_pair ! 0) (drifting_pair ! 1) = Fin 126"
    by (simp add: node_dist_def drifting_pair_def sqrt_15876)
  have two_clear:
    "\<not> num_lt (distPlanet (getPlanetConfig (Fin 1000) (Fin 1000)) (drifting_pair ! 0))
         (num_add (p_radius (getPlanetConfig (Fin 1000) (Fin 1000))) (Fin 20))"
    "\<not> num_lt (distPlanet (getPlanetConfig (Fin 1000) (Fin 1000)) (drifting_pair ! 1))
         (num_add (p_radius (getPlanetConfig (Fin 1000) (Fin 1000))) (Fin 20))"
    by (simp_all add: drifting_pair_def planet_1000 distPlanet_def not_sqrt_less)
  have two_after: "\<not> num_lt
       (node_dist
          (ph_nodes (physics_step 1000 1000 \<lparr>ph_nodes = drifting_pair, ph_links = [link_a1_f1]\<rparr>) ! 0)
          (ph_nodes (physics_step 1000 1000 \<lparr>ph_nodes = drifting_pair, ph_links = [link_a1_f1]\<rparr>) ! 1))
       (node_dist (drifting_pair ! 0) (drifting_pair ! 1))"
    unfolding two_d drifting_step by (simp add: node_dist_def not_sqrt_less)
  have two_up: "num_lt
       (node_dist (drifting_pair ! 0) (drifting_pair ! 1))
       (node_dist
          (ph_nodes (physics_step 1000 1000 \<lparr>ph_nodes = drifting_pair, ph_links = [link_a1_f1]\<rparr>) ! 0)
          (ph_nodes (physics_step 1000 1000 \<lparr>ph_nodes = drifting_pair, ph_links = [link_a1_f1]\<rparr>) ! 1))"
    unfolding two_d drifting_step by (simp add: node_dist_def less_sqrt_iff)
  have three: "reconcile draws_4 400 800 held_a1_left snapshot_a1_f1 =
       \<lparr>ph_nodes = zone_pair, ph_links = [link_a1_f1]\<rparr>"
    by (simp add: reconcile_def held_a1_left_def snapshot_a1_f1_def draws_4_def
        zone_pair_def link_a1_f1_def)
  have three_d: "node_dist (zone_pair ! 0) (zone_pair ! 1) = Fin 168"
    by (simp add: node_dist_def zone_pair_def sqrt_28224)
  have three_rest: "n_vx (zone_pair ! 0) = Fin 0" "n_vy (zone_pair ! 0) = Fin 0"
    "n_vx (zone_pair ! 1) = Fin 0" "n_vy (zone_pair ! 1) = Fin 0"
    by (simp_all add: zone_pair_def)
  have three_after: "\<not> num_lt
       (node_dist
          (ph_nodes (physics_step 400 800 \<lparr>ph_nodes = zone_pair, ph_links = [link_a1_f1]\<rparr>) ! 0)
          (ph_nodes (physics_step 400 800 \<lparr>ph_nodes = zone_pair, ph_links = [link_a1_f1]\<rparr>) ! 1))
       (node_dist (zone_pair ! 0) (zone_pair ! 1))"
    unfolding three_d zone_step by (simp add: node_dist_def not_sqrt_less)
  have three_up: "num_lt
       (node_dist (zone_pair ! 0) (zone_pair ! 1))
       (node_dist
          (ph_nodes (physics_step 400 800 \<lparr>ph_nodes = zone_pair, ph_links = [link_a1_f1]\<rparr>) ! 0)
          (ph_nodes (physics_step 400 800 \<lparr>ph_nodes = zone_pair, ph_links = [link_a1_f1]\<rparr>) ! 1))"
    unfolding three_d zone_step by (simp add: node_dist_def less_sqrt_iff)
  have three_zone:
    "num_lt (distPlanet (getPlanetConfig (Fin 400) (Fin 800)) (zone_pair ! 0))
       (num_add (p_radius (getPlanetConfig (Fin 400) (Fin 800))) (Fin 20))"
    "num_lt (distPlanet (getPlanetConfig (Fin 400) (Fin 800)) (zone_pair ! 1))
       (num_add (p_radius (getPlanetConfig (Fin 400) (Fin 800))) (Fin 20))"
    by (simp_all add: zone_pair_def getPlanetConfig_Fin distPlanet_def sqrt_90000)
  from scenario one one_up two two_d two_clear two_after two_up
    three three_d three_rest three_after three_up three_zone
  show ?thesis by (simp only: simp_thms)
qed

section \<open>Finite states stay finite away from the centre of the obstacle\<close>

lemma fin_nodeE:
  assumes "fin_node n"
  obtains x y vx vy where "n_x n = Fin x" "n_y n = Fin y" "n_vx n = Fin vx" "n_vy n = Fin vy"
  using assms unfolding fin_node_def is_fin_iff by blast

lemma list_all_update:
  "list_all P xs \<Longrightarrow> P v \<Longrightarrow> list_all P (xs[i := v])"
  unfolding list_all_iff using set_update_subset_insert [of xs i v] by auto

lemma repulse_pair_fin:
  assumes "i < length ns" "j < length ns" "list_all fin_node ns"
  shows "list_all fin_node (repulse_pair i j ns)"
proof -
  from assms have fi: "fin_node (ns ! i)" and fj: "fin_node (ns ! j)"
    by (simp_all add: list_all_length)
  from fi obtain xi yi vxi vyi where
    i: "n_x (ns ! i) = Fin xi" "n_y (ns ! i) = Fin yi" "n_vx (ns ! i) = Fin vxi" "n_vy (ns ! i) = Fin vyi"
    by (rule fin_nodeE)
  from fj obtain xj yj vxj vyj where
    j: "n_x (ns ! j) = Fin xj" "n_y (ns ! j) = Fin yj" "n_vx (ns ! j) = Fin vxj" "n_vy (ns ! j) = Fin vyj"
    by (rule fin_nodeE)
  define fx where "fx = fst (repulsion_delta (Fin (xi - xj)) (Fin (yi - yj)))"
  define fy where "fy = snd (repulsion_delta (Fin (xi - xj)) (Fin (yi - yj)))"
  have f: "is_fin fx" "is_fin fy" by (simp_all add: fx_def fy_def repulsion_delta_Fin)
  then obtain rx ry where r: "fx = Fin rx" "fy = Fin ry" unfolding is_fin_iff by blast
  define ns1 where "ns1 = ns[i := (ns ! i)\<lparr>n_vx := num_add (n_vx (ns ! i)) fx,
                                 n_vy := num_add (n_vy (ns ! i)) fy\<rparr>]"
  have 1: "list_all fin_node ns1"
    unfolding ns1_def by (rule list_all_update [OF assms(3)]) (simp add: fin_node_def i r)
  have len: "j < length ns1" using assms(2) by (simp add: ns1_def)
  from 1 len have "fin_node (ns1 ! j)" by (simp add: list_all_length)
  then have 2: "fin_node ((ns1 ! j)\<lparr>n_vx := num_sub (n_vx (ns1 ! j)) fx,
                             n_vy := num_sub (n_vy (ns1 ! j)) fy\<rparr>)"
    by (auto simp: fin_node_def r is_fin_iff)
  have "repulse_pair i j ns = ns1[j := (ns1 ! j)\<lparr>n_vx := num_sub (n_vx (ns1 ! j)) fx,
                             n_vy := num_sub (n_vy (ns1 ! j)) fy\<rparr>]"
    by (simp add: repulse_pair_def Let_def ns1_def fx_def fy_def i j)
  then show ?thesis using list_all_update [OF 1 2] by simp
qed

lemma fold_inv:
  assumes "P s" and "\<And>x s. x \<in> set xs \<Longrightarrow> P s \<Longrightarrow> P (f x s)"
  shows "P (fold f xs s)"
  using assms by (induction xs arbitrary: s) simp_all

lemma repulsion_fin:
  assumes "list_all fin_node ns"
  shows "list_all fin_node (repulsion ns)"
proof -
  define n where "n = length ns"
  define P where "P = (\<lambda>acc. length acc = n \<and> list_all fin_node acc)"
  have inner: "P (fold (\<lambda>j. repulse_pair i j) [Suc i ..< length acc] acc)"
    if "i < n" "P acc" for i acc
  proof (rule fold_inv [where P = P])
    show "P acc" by (rule that)
  next
    fix j s assume "j \<in> set [Suc i ..< length acc]" "P s"
    with that show "P (repulse_pair i j s)"
      by (simp add: P_def repulse_pair_length repulse_pair_fin)
  qed
  have "P (fold (\<lambda>i acc. fold (\<lambda>j. repulse_pair i j) [Suc i ..< length acc] acc) [0 ..< length ns] ns)"
  proof (rule fold_inv [where P = P])
    show "P ns" using assms by (simp add: P_def n_def)
  next
    fix i s assume "i \<in> set [0 ..< length ns]" "P s"
    then show "P (fold (\<lambda>j. repulse_pair i j) [Suc i ..< length s] s)"
      by (intro inner) (simp_all add: n_def)
  qed
  then show ?thesis by (simp add: repulsion_def P_def)
qed

lemma spring_delta_fin: "is_fin (fst (spring_delta (Fin dx) (Fin dy))) \<and> is_fin (snd (spring_delta (Fin dx) (Fin dy)))"
  by (simp add: spring_delta_Fin)

lemma spring_link_fin:
  assumes "list_all fin_node ns"
  shows "list_all fin_node (spring_link l ns)"
proof (cases "find_idx (l_source l) ns")
  case None
  with assms show ?thesis by (simp add: spring_link_def)
next
  case (Some s)
  show ?thesis
  proof (cases "find_idx (l_target l) ns")
    case None
    with Some assms show ?thesis by (simp add: spring_link_def)
  next
    case (Some t)
    from find_idx_Some [OF \<open>find_idx (l_source l) ns = Some s\<close>] have s: "s < length ns" by simp
    from find_idx_Some [OF Some] have t: "t < length ns" by simp
    from assms s t have fs: "fin_node (ns ! s)" and ft: "fin_node (ns ! t)"
      by (simp_all add: list_all_length)
    from fs obtain xs ys vxs vys where
      ps: "n_x (ns ! s) = Fin xs" "n_y (ns ! s) = Fin ys" "n_vx (ns ! s) = Fin vxs" "n_vy (ns ! s) = Fin vys"
      by (rule fin_nodeE)
    from ft obtain xt yt vxt vyt where
      pt: "n_x (ns ! t) = Fin xt" "n_y (ns ! t) = Fin yt" "n_vx (ns ! t) = Fin vxt" "n_vy (ns ! t) = Fin vyt"
      by (rule fin_nodeE)
    define fx where "fx = fst (spring_delta (Fin (xt - xs)) (Fin (yt - ys)))"
    define fy where "fy = snd (spring_delta (Fin (xt - xs)) (Fin (yt - ys)))"
    from spring_delta_fin [of "xt - xs" "yt - ys"] obtain rx ry where r: "fx = Fin rx" "fy = Fin ry"
      unfolding is_fin_iff fx_def fy_def by blast
    define ns1 where "ns1 = ns[s := (ns ! s)\<lparr>n_vx := num_add (n_vx (ns ! s)) fx,
                                   n_vy := num_add (n_vy (ns ! s)) fy\<rparr>]"
    have 1: "list_all fin_node ns1"
      unfolding ns1_def by (rule list_all_update [OF assms]) (simp add: fin_node_def ps r)
    have "t < length ns1" using t by (simp add: ns1_def)
    with 1 have "fin_node (ns1 ! t)" by (simp add: list_all_length)
    then have 2: "fin_node ((ns1 ! t)\<lparr>n_vx := num_sub (n_vx (ns1 ! t)) fx,
                               n_vy := num_sub (n_vy (ns1 ! t)) fy\<rparr>)"
      by (auto simp: fin_node_def r is_fin_iff)
    have "spring_link l ns = ns1[t := (ns1 ! t)\<lparr>n_vx := num_sub (n_vx (ns1 ! t)) fx,
                               n_vy := num_sub (n_vy (ns1 ! t)) fy\<rparr>]"
      using \<open>find_idx (l_source l) ns = Some s\<close> Some
      by (simp add: spring_link_def Let_def ns1_def fx_def fy_def ps pt)
    then show ?thesis using list_all_update [OF 1 2] by simp
  qed
qed

lemma springs_fin: "list_all fin_node ns \<Longrightarrow> list_all fin_node (springs ls ns)"
  unfolding springs_def by (rule fold_inv) (simp_all add: spring_link_fin)

lemma sq_sum_zero: "(u * u + v * v = (0::real)) = (u = 0 \<and> v = 0)"
  by (simp add: sum_squares_eq_zero_iff)

lemma gravity_planet_fin:
  assumes "fin_node n"
    and "\<not> (n_x n = Fin px \<and> n_y n = Fin py)"
  shows "fin_node (gravity_planet (Fin w) (Fin h) \<lparr>p_x = Fin px, p_y = Fin py, p_radius = Fin r\<rparr> n)"
proof -
  from assms(1) obtain x y vx vy where
    f: "n_x n = Fin x" "n_y n = Fin y" "n_vx n = Fin vx" "n_vy n = Fin vy"
    by (rule fin_nodeE)
  from assms(2) f have "\<not> (x - px = 0 \<and> y - py = 0)" by simp
  then have nz: "(x - px) * (x - px) + (y - py) * (y - py) \<noteq> 0"
    by (simp only: sq_sum_zero) simp
  have dp: "distPlanet \<lparr>p_x = Fin px, p_y = Fin py, p_radius = Fin r\<rparr> n =
      Fin (sqrt ((x - px) * (x - px) + (y - py) * (y - py)))"
    by (simp add: distPlanet_def Let_def f)
  show ?thesis
    using nz by (simp add: gravity_planet_def Let_def dp f fin_node_def
        CENTER_GRAVITY_def DAMPING_def)
qed

text \<open>If every held node is finite and none lies exactly on the centre of the obstacle,
  every node is finite after one integration step: the floors of the repulsion and spring
  phases cover coincident nodes.\<close>

lemma step_finite:
  assumes fin: "list_all fin_node (ph_nodes p)"
    and off: "\<forall>n \<in> set (ph_nodes p).
        \<not> (n_x n = p_x (getPlanetConfig (Fin (real cw)) (Fin (real ch))) \<and>
           n_y n = p_y (getPlanetConfig (Fin (real cw)) (Fin (real ch))))"
  shows "list_all fin_node (ph_nodes (physics_step cw ch p))"
proof -
  obtain px py r where pl:
    "getPlanetConfig (Fin (real cw)) (Fin (real ch)) =
       \<lparr>p_x = Fin px, p_y = Fin py, p_radius = Fin r\<rparr>"
    using planet_of_canvas by blast
  let ?m = "springs (ph_links p) (repulsion (ph_nodes p))"
  have fm: "list_all fin_node ?m"
    by (intro springs_fin repulsion_fin fin)
  have frame: "map frame ?m = map frame (ph_nodes p)"
    by (simp add: springs_frame repulsion_frame)
  then have len: "length ?m = length (ph_nodes p)" by (metis length_map)
  have "fin_node (gravity_planet (Fin (real cw)) (Fin (real ch))
           \<lparr>p_x = Fin px, p_y = Fin py, p_radius = Fin r\<rparr> (?m ! i))"
    if "i < length ?m" for i
  proof (rule gravity_planet_fin)
    from fm that show "fin_node (?m ! i)" by (simp add: list_all_length)
    from that len have i: "i < length (ph_nodes p)" by simp
    then have "ph_nodes p ! i \<in> set (ph_nodes p)" by simp
    with off pl have "\<not> (n_x (ph_nodes p ! i) = Fin px \<and> n_y (ph_nodes p ! i) = Fin py)"
      by simp
    with frame_nth [OF frame i] show "\<not> (n_x (?m ! i) = Fin px \<and> n_y (?m ! i) = Fin py)"
      by simp
  qed
  then show ?thesis
    by (simp add: physics_step_def Let_def pl list_all_length)
qed

section \<open>Coincident nodes on the centre of the obstacle\<close>

text \<open>
  Claim C3, at two inputs where the code departs from it. In a viewport of width and
  height 0 the two nodes of the second snapshot are both spawned at \<open>(0, 0)\<close>, which is the
  centre of the obstacle; in a canvas of 1000 by 1000 two nodes are placed on the centre
  \<open>(-100, 1100)\<close>. In both cases the two nodes have identical coordinates and after one
  integration step their \<open>vx\<close> and \<open>vy\<close> are NaN: the pairwise phase floors the zero
  distance, the obstacle phase does not. Away from the centre the claim holds
  (\<open>step_finite\<close>).
\<close>

theorem coincident_nodes_nan:
  "n_x (ph_nodes (reconcile draws_half 0 0 initial_physics snapshot_a1_f1) ! 0) =
     n_x (ph_nodes (reconcile draws_half 0 0 initial_physics snapshot_a1_f1) ! 1) \<and>
   n_y (ph_nodes (reconcile draws_half 0 0 initial_physics snapshot_a1_f1) ! 0) =
     n_y (ph_nodes (reconcile draws_half 0 0 initial_physics snapshot_a1_f1) ! 1) \<and>
   \<not> is_fin (n_vx (ph_nodes (physics_step 0 0
        (reconcile draws_half 0 0 initial_physics snapshot_a1_f1)) ! 0)) \<and>
   \<not> is_fin (n_vy (ph_nodes (physics_step 0 0
        (reconcile draws_half 0 0 initial_physics snapshot_a1_f1)) ! 0)) \<and>
   \<not> is_fin (n_vx (ph_nodes (physics_step 0 0
        (reconcile draws_half 0 0 initial_physics snapshot_a1_f1)) ! 1)) \<and>
   \<not> is_fin (n_vy (ph_nodes (physics_step 0 0
        (reconcile draws_half 0 0 initial_physics snapshot_a1_f1)) ! 1)) \<and>
   n_x (centre_pair ! 0) = n_x (centre_pair ! 1) \<and>
   n_y (centre_pair ! 0) = n_y (centre_pair ! 1) \<and>
   n_vx (ph_nodes (physics_step 1000 1000 \<lparr>ph_nodes = centre_pair, ph_links = []\<rparr>) ! 0) = NaN \<and>
   n_vy (ph_nodes (physics_step 1000 1000 \<lparr>ph_nodes = centre_pair, ph_links = []\<rparr>) ! 0) = NaN \<and>
   n_vx (ph_nodes (physics_step 1000 1000 \<lparr>ph_nodes = centre_pair, ph_links = []\<rparr>) ! 1) = NaN \<and>
   n_vy (ph_nodes (physics_step 1000 1000 \<lparr>ph_nodes = centre_pair, ph_links = []\<rparr>) ! 1) = NaN"
proof -
  let ?p = "reconcile draws_half 0 0 initial_physics snapshot_a1_f1"
  let ?q = "\<lparr>ph_nodes = centre_pair, ph_links = []\<rparr>"
  have p: "ph_nodes ?p =
     [\<lparr>n_id = ''a1'', n_type = ''agent'', n_x = Fin 0, n_y = Fin 0, n_vx = Fin 0, n_vy = Fin 0\<rparr>,
      \<lparr>n_id = ''f1'', n_type = ''form'', n_x = Fin 0, n_y = Fin 0, n_vx = Fin 0, n_vy = Fin 0\<rparr>]"
    by (simp add: reconcile_def initial_physics_def snapshot_a1_f1_def draws_half_def)
  have pl0: "getPlanetConfig (Fin 0) (Fin 0) =
      \<lparr>p_x = Fin 0, p_y = Fin 0, p_radius = Fin 0\<rparr>"
    by (simp add: getPlanetConfig_Fin)
  have pl1: "getPlanetConfig (Fin 1000) (Fin 1000) =
      \<lparr>p_x = Fin (- 100), p_y = Fin 1100, p_radius = Fin 800\<rparr>"
    by (simp add: getPlanetConfig_Fin)
  have p0: "n_vx (ph_nodes (physics_step 0 0 ?p) ! 0) = NaN \<and>
            n_vy (ph_nodes (physics_step 0 0 ?p) ! 0) = NaN"
    using step_at_centre [of 0 ?p 0 0] by (simp add: p pl0)
  have p1: "n_vx (ph_nodes (physics_step 0 0 ?p) ! 1) = NaN \<and>
            n_vy (ph_nodes (physics_step 0 0 ?p) ! 1) = NaN"
    using step_at_centre [of 1 ?p 0 0] by (simp add: p pl0)
  have q0: "n_vx (ph_nodes (physics_step 1000 1000 ?q) ! 0) = NaN \<and>
            n_vy (ph_nodes (physics_step 1000 1000 ?q) ! 0) = NaN"
    using step_at_centre [of 0 ?q 1000 1000] by (simp add: centre_pair_def pl1)
  have q1: "n_vx (ph_nodes (physics_step 1000 1000 ?q) ! 1) = NaN \<and>
            n_vy (ph_nodes (physics_step 1000 1000 ?q) ! 1) = NaN"
    using step_at_centre [of 1 ?q 1000 1000] by (simp add: centre_pair_def pl1)
  have c: "n_x (centre_pair ! 0) = n_x (centre_pair ! 1)" "n_y (centre_pair ! 0) = n_y (centre_pair ! 1)"
    by (simp_all add: centre_pair_def)
  have e: "n_x (ph_nodes ?p ! 0) = n_x (ph_nodes ?p ! 1)" "n_y (ph_nodes ?p ! 0) = n_y (ph_nodes ?p ! 1)"
    by (simp_all add: p)
  from p0 p1 q0 q1 c e show ?thesis by simp
qed

section \<open>A spawn inside the obstacle\<close>

lemma sqrt_562500: "sqrt 562500 = 750"
  by (rule real_sqrt_unique) simp_all

text \<open>
  Claim C9, at an input where the code departs from it. In a viewport of 1000 by 1000 with
  the draws 0.11 and 0.76, the new node is placed at \<open>(110, 380)\<close>, at distance 750 from
  the centre \<open>(-100, 1100)\<close> of the obstacle, whose radius is 800: the node is inside it.
\<close>

theorem spawn_inside_planet:
  "n_id (ph_nodes (reconcile draws_inside 1000 1000 initial_physics snapshot_a1) ! 0)
      \<notin> n_id ` set (ph_nodes initial_physics) \<and>
   ph_nodes (reconcile draws_inside 1000 1000 initial_physics snapshot_a1) ! 0 =
     \<lparr>n_id = ''a1'', n_type = ''agent'', n_x = Fin 110, n_y = Fin 380, n_vx = Fin 0, n_vy = Fin 0\<rparr> \<and>
   getPlanetConfig (Fin (real (1000::nat))) (Fin (real (1000::nat))) =
     \<lparr>p_x = Fin (- 100), p_y = Fin 1100, p_radius = Fin 800\<rparr> \<and>
   distPlanet (getPlanetConfig (Fin (real (1000::nat))) (Fin (real (1000::nat))))
     (ph_nodes (reconcile draws_inside 1000 1000 initial_physics snapshot_a1) ! 0) = Fin 750 \<and>
   num_lt
     (distPlanet (getPlanetConfig (Fin (real (1000::nat))) (Fin (real (1000::nat))))
        (ph_nodes (reconcile draws_inside 1000 1000 initial_physics snapshot_a1) ! 0))
     (p_radius (getPlanetConfig (Fin (real (1000::nat))) (Fin (real (1000::nat)))))"
  by (simp add: reconcile_def initial_physics_def snapshot_a1_def draws_inside_def
      getPlanetConfig_Fin distPlanet_def sqrt_562500)

end
